theory Spec2Isabelle
  imports Complex_Main "HOL-Library.Product_Lexorder" "HOL-Library.AList"
begin

section \<open>Mastodon.py: a shallow embedding\<close>

text \<open>
  The embedding follows \<^verbatim>\<open>src/mastodon/Mastodon.py\<close>. Python strings are \<open>string\<close>
  (ASCII text), Python integers are \<open>int\<close>, clock readings and sleep durations
  (Python floats holding seconds) are \<open>real\<close>, exceptions are values of \<open>error\<close>
  returned on the left of a sum.
\<close>

subsection \<open>Exceptions\<close>

datatype error =
    MastodonVersionError
  | MastodonIllegalArgumentError
  | MastodonNetworkError
  | MastodonAPIError
  | MastodonNotFoundError
  | MastodonUnauthorizedError
  | MastodonRatelimitError
  | ValueError
  | KeyError
  | TypeError
  | IndexError
  | AttributeError
  | ZeroDivisionError
  | OtherException string

subsection \<open>Strings and \<^verbatim>\<open>int()\<close>\<close>

definition is_digit :: "char \<Rightarrow> bool" where
  "is_digit c = (c \<in> set ''0123456789'')"

definition digit_val :: "char \<Rightarrow> int" where
  "digit_val c = int (of_char c) - 48"

text \<open>\<^verbatim>\<open>str.split(sep)\<close> for a one-character separator: always at least one part.\<close>

fun split_on :: "char \<Rightarrow> string \<Rightarrow> string list" where
  "split_on sep [] = [[]]"
| "split_on sep (x # xs) =
     (if x = sep then [] # split_on sep xs
      else (case split_on sep xs of
              [] \<Rightarrow> [[x]]
            | p # ps \<Rightarrow> (x # p) # ps))"

text \<open>
  The characters \<^verbatim>\<open>str.rstrip()\<close> treats as white space, within ASCII: tab, line
  feed, vertical tab, form feed, carriage return, the separators \<^verbatim>\<open>0x1c\<close> to
  \<^verbatim>\<open>0x1f\<close>, and the space.
\<close>

definition is_space :: "char \<Rightarrow> bool" where
  "is_space c = (of_char c \<in> {9, 10, 11, 12, 13, 28, 29, 30, 31, 32 :: nat})"

definition rstrip :: "string \<Rightarrow> string" where
  "rstrip s = rev (dropWhile is_space (rev s))"

text \<open>
  The characters \<^verbatim>\<open>int()\<close> skips around the number in an ASCII string: tab, line feed,
  vertical tab, form feed, carriage return and the space, and not the separators
  \<^verbatim>\<open>0x1c\<close> to \<^verbatim>\<open>0x1f\<close>.
\<close>

definition is_int_space :: "char \<Rightarrow> bool" where
  "is_int_space c = (of_char c \<in> {9, 10, 11, 12, 13, 32 :: nat})"

definition int_strip :: "string \<Rightarrow> string" where
  "int_strip s = dropWhile is_int_space (rev (dropWhile is_int_space (rev s)))"

text \<open>\<^verbatim>\<open>s.rstrip(chars)\<close> for a one-character set.\<close>

definition rstrip_char :: "char \<Rightarrow> string \<Rightarrow> string" where
  "rstrip_char c s = rev (dropWhile (\<lambda>x. x = c) (rev s))"

text \<open>
  The digits of a decimal literal as \<^verbatim>\<open>int()\<close> accepts them: a digit, then digits each
  optionally preceded by one underscore.
\<close>

fun int_literal_ok :: "string \<Rightarrow> bool" where
  "int_literal_ok [] = False"
| "int_literal_ok [c] = is_digit c"
| "int_literal_ok (c # d # r) =
     (is_digit c \<and> (if d = CHR ''_'' then int_literal_ok r else int_literal_ok (d # r)))"

definition digits_value :: "string \<Rightarrow> int" where
  "digits_value s = foldl (\<lambda>acc c. 10 * acc + digit_val c) 0 s"

text \<open>
  \<^verbatim>\<open>int(s)\<close> on an ASCII string: surrounding white space is dropped, one sign is
  allowed, and anything else than a decimal literal is a \<^verbatim>\<open>ValueError\<close>.
\<close>

definition python_int :: "string \<Rightarrow> error + int" where
  "python_int s =
     (let t = int_strip s;
          neg = (t \<noteq> [] \<and> hd t = CHR ''-'');
          body = (if t \<noteq> [] \<and> (hd t = CHR ''-'' \<or> hd t = CHR ''+'') then tl t else t)
      in if int_literal_ok body
         then Inr ((if neg then -1 else 1) * digits_value (filter (\<lambda>c. c \<noteq> CHR ''_'') body))
         else Inl ValueError)"

subsection \<open>Version check functions\<close>

text \<open>\<^verbatim>\<open>re.match("([0-9]*)", s)[0]\<close>: the longest prefix of ASCII digits, possibly empty.\<close>

definition match_digits :: "string \<Rightarrow> string" where
  "match_digits s = takeWhile is_digit s"

text \<open>
  \<^verbatim>\<open>parse_version_string\<close>. The three list elements are evaluated left to right, so a
  failing conversion of an earlier part is raised before a missing later part is
  looked up (\<^verbatim>\<open>IndexError\<close>).
\<close>

definition version_part :: "string list \<Rightarrow> nat \<Rightarrow> error + int" where
  "version_part string_parts i =
     (if i < length string_parts then python_int (match_digits (string_parts ! i))
      else Inl IndexError)"

definition parse_version_string :: "string \<Rightarrow> error + (int \<times> int \<times> int)" where
  "parse_version_string version_string =
     (let string_parts = split_on CHR ''.'' version_string in
      case version_part string_parts 0 of
        Inl e \<Rightarrow> Inl e
      | Inr major \<Rightarrow>
         (case version_part string_parts 1 of
            Inl e \<Rightarrow> Inl e
          | Inr minor \<Rightarrow>
             (case version_part string_parts 2 of
                Inl e \<Rightarrow> Inl e
              | Inr patch \<Rightarrow> Inr (major, minor, patch))))"

subsection \<open>The client object\<close>

record mastodon =
  api_base_url :: string
  client_id :: string
  client_secret :: "string option"
  access_token :: "string option"
  debug_requests :: bool
  ratelimit_method :: string
  ratelimit_limit :: int
  ratelimit_reset :: real
  ratelimit_remaining :: int
  ratelimit_lastcall :: real
  ratelimit_pacefactor :: real
  request_timeout :: real
  mastodon_major :: int
  mastodon_minor :: int
  mastodon_patch :: int
  version_check_mode :: string

text \<open>
  The wrapper that \<^verbatim>\<open>api_version(created_ver, last_changed_ver)\<close> puts around a method.
  \<open>function\<close> is the decorated method applied to the client; \<open>raise\<close> says how an
  exception appears in the result type of that method (\<open>Inl\<close> for a method whose
  result is \<open>error + 'a\<close>).
\<close>

definition api_version ::
  "string \<Rightarrow> string \<Rightarrow> (error \<Rightarrow> 'r) \<Rightarrow> (mastodon \<Rightarrow> 'r) \<Rightarrow> mastodon \<Rightarrow> 'r" where
  "api_version created_ver last_changed_ver raise function self =
     (if version_check_mode self \<noteq> ''none'' then
        (let version = (if version_check_mode self = ''created'' then created_ver
                        else last_changed_ver)
         in case parse_version_string version of
              Inl e \<Rightarrow> raise e
            | Inr (major, minor, patch) \<Rightarrow>
               (if major > mastodon_major self then raise MastodonVersionError
                else if major = mastodon_major self \<and> minor > mastodon_minor self
                  then raise MastodonVersionError
                else if major = mastodon_major self \<and> minor = mastodon_minor self
                        \<and> patch > mastodon_patch self
                  then raise MastodonVersionError
                else function self))
      else function self)"

subsection \<open>Python values\<close>

text \<open>
  A \<^verbatim>\<open>datetime\<close>: whether it carries a time zone, and the instant it denotes in
  seconds since the epoch, a value without time zone being read as UTC.
\<close>

datatype datetime = Datetime (dt_epoch: real) (dt_aware: bool)

text \<open>
  The values that decoded JSON, request parameters and pagination cursors are made
  of. A \<^verbatim>\<open>dict\<close> keeps insertion order and is an association list: assigning to an
  existing key keeps its position, a new key goes to the end (\<open>AList.update\<close>), and
  \<^verbatim>\<open>del\<close> is \<open>AList.delete\<close>. \<open>PAttribDict\<close> is an \<^verbatim>\<open>AttribAccessDict\<close>.
\<close>

datatype pyval =
    PNone
  | PBool bool
  | PInt int
  | PFloat real
  | PStr string
  | PDatetime datetime
  | PList "pyval list"
  | PDict "(string \<times> pyval) list"
  | PAttribDict "(string \<times> pyval) list"

type_synonym dict = "(string \<times> pyval) list"

fun is_substring :: "string \<Rightarrow> string \<Rightarrow> bool" where
  "is_substring k [] = (k = [])"
| "is_substring k (c # cs) = (take (length k) (c # cs) = k \<or> is_substring k cs)"

text \<open>\<^verbatim>\<open>key in v\<close> for a string \<open>key\<close>.\<close>

fun py_contains :: "string \<Rightarrow> pyval \<Rightarrow> error + bool" where
  "py_contains k (PDict d) = Inr (k \<in> fst ` set d)"
| "py_contains k (PAttribDict d) = Inr (k \<in> fst ` set d)"
| "py_contains k (PList xs) = Inr (PStr k \<in> set xs)"
| "py_contains k (PStr s) = Inr (is_substring k s)"
| "py_contains k _ = Inl TypeError"

text \<open>\<^verbatim>\<open>v[key]\<close> for a string \<open>key\<close>.\<close>

fun py_getitem :: "pyval \<Rightarrow> string \<Rightarrow> error + pyval" where
  "py_getitem (PDict d) k = (case map_of d k of None \<Rightarrow> Inl KeyError | Some v \<Rightarrow> Inr v)"
| "py_getitem (PAttribDict d) k = (case map_of d k of None \<Rightarrow> Inl KeyError | Some v \<Rightarrow> Inr v)"
| "py_getitem _ k = Inl TypeError"

text \<open>\<^verbatim>\<open>v[key] = x\<close> for a string \<open>key\<close>: the value after the assignment.\<close>

fun py_setitem :: "pyval \<Rightarrow> string \<Rightarrow> pyval \<Rightarrow> error + pyval" where
  "py_setitem (PDict d) k x = Inr (PDict (AList.update k x d))"
| "py_setitem (PAttribDict d) k x = Inr (PAttribDict (AList.update k x d))"
| "py_setitem _ k x = Inl TypeError"

text \<open>\<^verbatim>\<open>del v[key]\<close> for a string \<open>key\<close>.\<close>

fun py_delitem :: "pyval \<Rightarrow> string \<Rightarrow> error + pyval" where
  "py_delitem (PDict d) k =
     (if k \<in> fst ` set d then Inr (PDict (AList.delete k d)) else Inl KeyError)"
| "py_delitem (PAttribDict d) k =
     (if k \<in> fst ` set d then Inr (PAttribDict (AList.delete k d)) else Inl KeyError)"
| "py_delitem _ k = Inl TypeError"

subsection \<open>Library functions the code calls\<close>

text \<open>
  What the code takes from \<^verbatim>\<open>dateutil\<close>, \<^verbatim>\<open>datetime\<close>, \<^verbatim>\<open>requests.utils\<close> and
  \<^verbatim>\<open>urllib.parse\<close> is a parameter of the model:
  \<^item> \<open>dateutil_parse v\<close> is \<^verbatim>\<open>dateutil.parser.parse(v)\<close>, \<open>None\<close> when it raises;
  \<^item> \<open>fromtimestamp_ok n\<close> says that \<^verbatim>\<open>datetime.datetime.fromtimestamp(n, pytz.utc)\<close>
    does not raise, that is, that \<open>n\<close> is in the range of the platform; its value is
    then the instant \<open>n\<close> seconds after the epoch, with the time zone UTC;
  \<^item> \<open>parse_header_links s\<close> is \<^verbatim>\<open>requests.utils.parse_header_links(s)\<close>, a list
    of dictionaries from strings to strings;
  \<^item> \<open>urlparse v\<close> gives the \<^verbatim>\<open>scheme\<close> and the \<^verbatim>\<open>netloc\<close> of \<^verbatim>\<open>urlparse(v)\<close>, or the
    exception it raises.
\<close>

record library =
  dateutil_parse :: "pyval \<Rightarrow> datetime option"
  fromtimestamp_ok :: "int \<Rightarrow> bool"
  parse_header_links :: "string \<Rightarrow> (string \<times> string) list list"
  urlparse :: "pyval \<Rightarrow> error + (string \<times> string)"

subsection \<open>The dictionary with attribute access\<close>

text \<open>
  An \<^verbatim>\<open>AttribAccessDict\<close> object: its dictionary entries and its instance attributes
  (the object's \<^verbatim>\<open>__dict__\<close>), which \<^verbatim>\<open>object.__setattr__\<close> writes.
\<close>

record attrib_access_dict =
  entries :: dict
  attributes :: "string \<rightharpoonup> pyval"


text \<open>\<^verbatim>\<open>__getattr__\<close>, which Python calls when the ordinary attribute lookup has failed.\<close>

definition getattr_hook :: "attrib_access_dict \<Rightarrow> string \<Rightarrow> error + pyval" where
  "getattr_hook self attr =
     (if attr \<in> fst ` set (entries self)
      then (case map_of (entries self) attr of None \<Rightarrow> Inl KeyError | Some v \<Rightarrow> Inr v)
      else Inl AttributeError)"





subsection \<open>JSON hooks\<close>

definition json_allow_dict_attrs :: "pyval \<Rightarrow> pyval" where
  "json_allow_dict_attrs json_object =
     (case json_object of
        PDict d \<Rightarrow> PAttribDict d
      | PAttribDict d \<Rightarrow> PAttribDict d
      | v \<Rightarrow> v)"

definition known_date_fields :: "string list" where
  "known_date_fields = [''created_at'', ''week'']"

text \<open>
  The body of the \<^verbatim>\<open>try\<close> in \<^verbatim>\<open>__json_date_parse\<close> for one value; \<open>None\<close> when it
  raises. \<^verbatim>\<open>isinstance(v, int)\<close> holds of booleans too.
\<close>

definition fromtimestamp_utc :: "library \<Rightarrow> int \<Rightarrow> datetime option" where
  "fromtimestamp_utc L n =
     (if fromtimestamp_ok L n then Some (Datetime (real_of_int n) True) else None)"

definition parse_date_value :: "library \<Rightarrow> pyval \<Rightarrow> datetime option" where
  "parse_date_value L v =
     (case v of
        PInt n \<Rightarrow> fromtimestamp_utc L n
      | PBool b \<Rightarrow> fromtimestamp_utc L (if b then 1 else 0)
      | _ \<Rightarrow> dateutil_parse L v)"

text \<open>The loop of \<^verbatim>\<open>__json_date_parse\<close> over \<^verbatim>\<open>json_object.items()\<close>.\<close>

fun date_parse_items :: "library \<Rightarrow> dict \<Rightarrow> dict \<Rightarrow> error + dict" where
  "date_parse_items L [] json_object = Inr json_object"
| "date_parse_items L ((k, v) # kvs) json_object =
     (if k \<in> set known_date_fields then
        (case parse_date_value L v of
           None \<Rightarrow> Inl MastodonAPIError
         | Some dt \<Rightarrow> date_parse_items L kvs (AList.update k (PDatetime dt) json_object))
      else date_parse_items L kvs json_object)"

definition json_date_parse :: "library \<Rightarrow> dict \<Rightarrow> error + dict" where
  "json_date_parse L json_object = date_parse_items L json_object json_object"

definition bignum_keys :: "string list" where
  "bignum_keys = [''id'', ''week'', ''in_reply_to_id'', ''in_reply_to_account_id'',
     ''logins'', ''registrations'', ''statuses'']"

text \<open>One round of the loop of \<^verbatim>\<open>__json_strnum_to_bignum\<close>.\<close>

definition strnum_key :: "dict \<Rightarrow> string \<Rightarrow> dict" where
  "strnum_key json_object key =
     (case map_of json_object key of
        Some (PStr s) \<Rightarrow>
          (case python_int s of
             Inr n \<Rightarrow> AList.update key (PInt n) json_object
           | Inl e \<Rightarrow> json_object)
      | _ \<Rightarrow> json_object)"

definition json_strnum_to_bignum :: "dict \<Rightarrow> dict" where
  "json_strnum_to_bignum json_object = foldl strnum_key json_object bignum_keys"

definition json_hooks :: "library \<Rightarrow> dict \<Rightarrow> error + pyval" where
  "json_hooks L json_object =
     (let json_object1 = json_strnum_to_bignum json_object in
      case json_date_parse L json_object1 of
        Inl e \<Rightarrow> Inl e
      | Inr json_object2 \<Rightarrow> Inr (json_allow_dict_attrs (PDict json_object2)))"

text \<open>
  \<^verbatim>\<open>json.loads(text, object_hook=hook)\<close> on a text that is valid JSON, given as the
  tree it denotes (plain dictionaries, lists and scalars): every object is decoded
  members first, then handed to the hook, whose result takes its place.
\<close>

fun json_decode :: "(dict \<Rightarrow> error + pyval) \<Rightarrow> pyval \<Rightarrow> error + pyval"
  and json_decode_list :: "(dict \<Rightarrow> error + pyval) \<Rightarrow> pyval list \<Rightarrow> error + pyval list"
  and json_decode_items :: "(dict \<Rightarrow> error + pyval) \<Rightarrow> dict \<Rightarrow> error + dict" where
  "json_decode hook (PList xs) =
     (case json_decode_list hook xs of Inl e \<Rightarrow> Inl e | Inr ys \<Rightarrow> Inr (PList ys))"
| "json_decode hook (PDict kvs) =
     (case json_decode_items hook kvs of Inl e \<Rightarrow> Inl e | Inr d \<Rightarrow> hook d)"
| "json_decode hook (PAttribDict kvs) =
     (case json_decode_items hook kvs of Inl e \<Rightarrow> Inl e | Inr d \<Rightarrow> hook d)"
| "json_decode hook PNone = Inr PNone"
| "json_decode hook (PBool b) = Inr (PBool b)"
| "json_decode hook (PInt n) = Inr (PInt n)"
| "json_decode hook (PFloat x) = Inr (PFloat x)"
| "json_decode hook (PStr s) = Inr (PStr s)"
| "json_decode hook (PDatetime t) = Inr (PDatetime t)"
| "json_decode_list hook [] = Inr []"
| "json_decode_list hook (x # xs) =
     (case json_decode hook x of
        Inl e \<Rightarrow> Inl e
      | Inr y \<Rightarrow> (case json_decode_list hook xs of Inl e \<Rightarrow> Inl e | Inr ys \<Rightarrow> Inr (y # ys)))"
| "json_decode_items hook [] = Inr []"
| "json_decode_items hook ((k, v) # kvs) =
     (case json_decode hook v of
        Inl e \<Rightarrow> Inl e
      | Inr y \<Rightarrow>
         (case json_decode_items hook kvs of Inl e \<Rightarrow> Inl e | Inr d \<Rightarrow> Inr ((k, y) # d)))"

subsection \<open>The world outside\<close>

text \<open>
  A response of the server. \<open>headers\<close> maps a header name to its value, \<open>body\<close> is
  the JSON tree the body text denotes, \<open>None\<close> when the text is not JSON, and
  \<open>elapsed\<close> is the time the exchange took.
\<close>

record response =
  status_code :: int
  headers :: "string \<rightharpoonup> string"
  body :: "pyval option"
  elapsed :: real

text \<open>What a call of \<^verbatim>\<open>requests\<close> does: raise, return \<^verbatim>\<open>None\<close>, or return a response.\<close>

datatype http_outcome = HttpException | HttpNone | HttpResponse response

record http_request =
  req_method :: string
  req_url :: string
  req_authorization :: "string option"
  req_params :: "pyval option"
  req_data :: "pyval option"
  req_files :: "pyval option"
  req_stream :: bool

text \<open>
  The clock that \<^verbatim>\<open>time.time()\<close> reads, the durations \<^verbatim>\<open>time.sleep\<close> was called with,
  in order, and the requests handed to \<^verbatim>\<open>requests\<close>, in order. The clock advances while
  the program sleeps and while it waits for a response; the statements in between take
  no time.
\<close>

record world =
  clock :: real
  sleeps :: "real list"
  sent :: "http_request list"

definition time_sleep :: "real \<Rightarrow> world \<Rightarrow> world" where
  "time_sleep secs w = w\<lparr>clock := clock w + secs, sleeps := sleeps w @ [secs]\<rparr>"

text \<open>A request is handed to \<^verbatim>\<open>requests\<close>; the response \<open>r\<close> arrives.\<close>

definition note_request :: "http_request \<Rightarrow> world \<Rightarrow> world" where
  "note_request req w = w\<lparr>sent := sent w @ [req]\<rparr>"

definition wait_response :: "response \<Rightarrow> world \<Rightarrow> world" where
  "wait_response r w = w\<lparr>clock := clock w + elapsed r\<rparr>"

text \<open>\<^verbatim>\<open>Response.ok\<close>: \<^verbatim>\<open>raise_for_status()\<close> raises for the codes from 400 to 599.\<close>

definition response_ok :: "response \<Rightarrow> bool" where
  "response_ok r = (\<not> (400 \<le> status_code r \<and> status_code r < 600))"

definition datetime_to_epoch :: "datetime \<Rightarrow> real" where
  "datetime_to_epoch date_time = dt_epoch date_time"

subsection \<open>The request helper\<close>

text \<open>
  The "pace" block at the head of \<^verbatim>\<open>__api_request\<close>. \<^verbatim>\<open>time.sleep\<close> raises
  \<^verbatim>\<open>ValueError\<close> on a negative duration, which a negative pace factor produces.
\<close>

definition pace_wait :: "bool \<Rightarrow> mastodon \<Rightarrow> world \<Rightarrow> error + world" where
  "pace_wait do_ratelimiting self w =
     (if do_ratelimiting \<and> ratelimit_method self = ''pace'' then
        (let (remaining_wait, w1) =
           (if ratelimit_remaining self = 0 then
              (let to_next = ratelimit_reset self - clock w in
               (0, if to_next > 0 then time_sleep (min to_next (5 * 60)) w else w))
            else
              (let time_waited = clock w - ratelimit_lastcall self;
                   time_wait = (ratelimit_reset self - clock w)
                                 / real_of_int (ratelimit_remaining self)
               in (time_wait - time_waited, w)))
         in if remaining_wait > 0 then
              (if ratelimit_pacefactor self = 0 then Inl ZeroDivisionError
               else
                 (let to_next = min (remaining_wait / ratelimit_pacefactor self) (5 * 60)
                  in if to_next < 0 then Inl ValueError else Inr (time_sleep to_next w1)))
            else Inr w1)
      else Inr w)"

text \<open>
  "Parse rate limiting headers": the exception raised, if any, and the client with the
  fields assigned up to there.
\<close>

definition update_ratelimit ::
  "library \<Rightarrow> bool \<Rightarrow> response \<Rightarrow> mastodon \<Rightarrow> world \<Rightarrow> error option \<times> mastodon" where
  "update_ratelimit L do_ratelimiting r self w =
     (case headers r ''X-RateLimit-Remaining'' of
        None \<Rightarrow> (None, self)
      | Some remaining_s \<Rightarrow>
         if \<not> do_ratelimiting then (None, self)
         else
          (case python_int remaining_s of
             Inl e \<Rightarrow> (Some e, self)
           | Inr remaining \<Rightarrow>
              (let self1 = self\<lparr>ratelimit_remaining := remaining\<rparr> in
               case headers r ''X-RateLimit-Limit'' of
                 None \<Rightarrow> (Some KeyError, self1)
               | Some limit_s \<Rightarrow>
                  (case python_int limit_s of
                     Inl e \<Rightarrow> (Some e, self1)
                   | Inr limit \<Rightarrow>
                      (let self2 = self1\<lparr>ratelimit_limit := limit\<rparr> in
                       case headers r ''X-RateLimit-Reset'' of
                         None \<Rightarrow> (Some MastodonRatelimitError, self2)
                       | Some reset_s \<Rightarrow>
                          (case dateutil_parse L (PStr reset_s) of
                             None \<Rightarrow> (Some MastodonRatelimitError, self2)
                           | Some ratelimit_reset_datetime \<Rightarrow>
                              (let self3 = self2\<lparr>ratelimit_reset :=
                                     datetime_to_epoch ratelimit_reset_datetime\<rparr> in
                               case headers r ''Date'' of
                                 None \<Rightarrow> (None, self3)
                               | Some date_s \<Rightarrow>
                                  (case dateutil_parse L (PStr date_s) of
                                     None \<Rightarrow> (Some MastodonRatelimitError, self3)
                                   | Some server_time_datetime \<Rightarrow>
                                      (let server_time = datetime_to_epoch server_time_datetime;
                                           server_time_diff = clock w - server_time
                                       in (None, self3\<lparr>ratelimit_reset :=
                                                    ratelimit_reset self3 + server_time_diff,
                                                  ratelimit_lastcall := clock w\<rparr>))))))))))"

text \<open>
  The \<^verbatim>\<open>try\<close> block of the branch for a response that is not ok: the value of
  \<^verbatim>\<open>error_msg\<close>, or the exception that leaves the block. Only \<^verbatim>\<open>ValueError\<close> is caught.
\<close>

definition error_message :: "library \<Rightarrow> response \<Rightarrow> error + pyval" where
  "error_message L r =
     (case body r of
        None \<Rightarrow> Inr PNone
      | Some raw \<Rightarrow>
         (case json_decode (json_hooks L) raw of
            Inl e \<Rightarrow> (if e = ValueError then Inr PNone else Inl e)
          | Inr response \<Rightarrow>
             (case py_getitem response ''error'' of
                Inl e \<Rightarrow> (if e = ValueError then Inr PNone else Inl e)
              | Inr error_msg \<Rightarrow> Inr error_msg)))"

definition error_for_status :: "int \<Rightarrow> error" where
  "error_for_status code =
     (if code = 404 then MastodonNotFoundError
      else if code = 401 then MastodonUnauthorizedError
      else MastodonAPIError)"

text \<open>What one round of the request loop ends in: another round, or the call's result.\<close>

datatype attempt_result =
    Again mastodon world
  | Done "error + pyval" mastodon world

text \<open>The branch \<^verbatim>\<open>if not response_object.ok\<close>, after the rate limiting headers.\<close>

definition handle_error ::
  "library \<Rightarrow> bool \<Rightarrow> response \<Rightarrow> mastodon \<Rightarrow> world \<Rightarrow> attempt_result" where
  "handle_error L do_ratelimiting r self w =
     (case error_message L r of
        Inl e \<Rightarrow> Done (Inl e) self w
      | Inr error_msg \<Rightarrow>
         (let raise_status = Done (Inl (error_for_status (status_code r))) self w in
          if status_code r = 429 then
            (if ratelimit_method self = ''throw'' \<or> \<not> do_ratelimiting
               then Done (Inl MastodonRatelimitError) self w
             else if ratelimit_method self \<in> {''wait'', ''pace''} then
               (let to_next = ratelimit_reset self - clock w in
                if to_next > 0 then Again self (time_sleep (min to_next (5 * 60)) w)
                else raise_status)
             else raise_status)
          else raise_status))"

text \<open>\<^verbatim>\<open>s.replace('>,<', ',<')\<close>.\<close>

fun replace_link_sep :: "string \<Rightarrow> string" where
  "replace_link_sep (a # b # c # r) =
     (if a = CHR ''>'' \<and> b = CHR '','' \<and> c = CHR ''<''
      then CHR '','' # CHR ''<'' # replace_link_sep r
      else a # replace_link_sep (b # c # r))"
| "replace_link_sep s = s"

text \<open>
  \<^verbatim>\<open>re.search(key + "([0-9]*)", url)\<close> for a literal \<open>key\<close>: group 1 of the first match,
  \<open>None\<close> when \<open>key\<close> does not occur.
\<close>

fun search_digits_after :: "string \<Rightarrow> string \<Rightarrow> string option" where
  "search_digits_after key [] = (if key = [] then Some [] else None)"
| "search_digits_after key (c # cs) =
     (if take (length key) (c # cs) = key
      then Some (takeWhile is_digit (drop (length key) (c # cs)))
      else search_digits_after key cs)"

text \<open>
  The cursor built from a link: a copy of \<open>params\<close> with the method, the endpoint and
  \<open>set_key\<close> assigned, and \<open>del_key\<close> deleted if present.
\<close>

definition make_cursor ::
  "pyval \<Rightarrow> string \<Rightarrow> string \<Rightarrow> string \<Rightarrow> string \<Rightarrow> string \<Rightarrow> error + pyval" where
  "make_cursor params method endpoint set_key del_key digits =
     (case py_setitem params ''_pagination_method'' (PStr method) of
        Inl e \<Rightarrow> Inl e
      | Inr p1 \<Rightarrow>
         (case py_setitem p1 ''_pagination_endpoint'' (PStr endpoint) of
            Inl e \<Rightarrow> Inl e
          | Inr p2 \<Rightarrow>
             (case python_int digits of
                Inl e \<Rightarrow> Inl e
              | Inr n \<Rightarrow>
                 (case py_setitem p2 set_key (PInt n) of
                    Inl e \<Rightarrow> Inl e
                  | Inr p3 \<Rightarrow>
                     (case py_contains del_key p3 of
                        Inl e \<Rightarrow> Inl e
                      | Inr present \<Rightarrow>
                         if present then py_delitem p3 del_key else Inr p3)))))"

text \<open>\<^verbatim>\<open>response[-1][key] = v\<close> and \<^verbatim>\<open>response[0][key] = v\<close>.\<close>

definition set_last_item :: "pyval list \<Rightarrow> string \<Rightarrow> pyval \<Rightarrow> error + pyval list" where
  "set_last_item response key v =
     (if response = [] then Inl IndexError
      else (case py_setitem (last response) key v of
              Inl e \<Rightarrow> Inl e
            | Inr x \<Rightarrow> Inr (butlast response @ [x])))"

definition set_first_item :: "pyval list \<Rightarrow> string \<Rightarrow> pyval \<Rightarrow> error + pyval list" where
  "set_first_item response key v =
     (case response of
        [] \<Rightarrow> Inl IndexError
      | x # xs \<Rightarrow> (case py_setitem x key v of Inl e \<Rightarrow> Inl e | Inr y \<Rightarrow> Inr (y # xs)))"

definition attach_next ::
  "string \<Rightarrow> string \<Rightarrow> pyval \<Rightarrow> (string \<times> string) list \<Rightarrow> pyval list \<Rightarrow> error + pyval list"
  where
  "attach_next method endpoint params url response =
     (case map_of url ''url'' of
        None \<Rightarrow> Inl KeyError
      | Some next_url \<Rightarrow>
         (case search_digits_after ''max_id='' next_url of
            None \<Rightarrow> Inr response
          | Some digits \<Rightarrow>
             (case make_cursor params method endpoint ''max_id'' ''since_id'' digits of
                Inl e \<Rightarrow> Inl e
              | Inr next_params \<Rightarrow> set_last_item response ''_pagination_next'' next_params)))"

definition attach_prev ::
  "string \<Rightarrow> string \<Rightarrow> pyval \<Rightarrow> (string \<times> string) list \<Rightarrow> pyval list \<Rightarrow> error + pyval list"
  where
  "attach_prev method endpoint params url response =
     (case map_of url ''url'' of
        None \<Rightarrow> Inl KeyError
      | Some prev_url \<Rightarrow>
         (case search_digits_after ''since_id='' prev_url of
            None \<Rightarrow> Inr response
          | Some digits \<Rightarrow>
             (case make_cursor params method endpoint ''since_id'' ''max_id'' digits of
                Inl e \<Rightarrow> Inl e
              | Inr prev_params \<Rightarrow> set_first_item response ''_pagination_prev'' prev_params)))"

text \<open>The loop \<^verbatim>\<open>for url in tmp_urls\<close>.\<close>

fun attach_links ::
  "string \<Rightarrow> string \<Rightarrow> pyval \<Rightarrow> (string \<times> string) list list \<Rightarrow> pyval list
     \<Rightarrow> error + pyval list" where
  "attach_links method endpoint params [] response = Inr response"
| "attach_links method endpoint params (url # tmp_urls) response =
     (case map_of url ''rel'' of
        None \<Rightarrow> attach_links method endpoint params tmp_urls response
      | Some rel \<Rightarrow>
         (case (if rel = ''next'' then attach_next method endpoint params url response
                else Inr response) of
            Inl e \<Rightarrow> Inl e
          | Inr response1 \<Rightarrow>
             (case (if rel = ''prev'' then attach_prev method endpoint params url response1
                    else Inr response1) of
                Inl e \<Rightarrow> Inl e
              | Inr response2 \<Rightarrow> attach_links method endpoint params tmp_urls response2)))"

text \<open>The path of a response that is ok: decode the body, then "Parse link headers".\<close>

definition handle_success ::
  "library \<Rightarrow> string \<Rightarrow> string \<Rightarrow> pyval \<Rightarrow> response \<Rightarrow> error + pyval" where
  "handle_success L method endpoint params r =
     (case body r of
        None \<Rightarrow> Inl MastodonAPIError
      | Some raw \<Rightarrow>
         (case json_decode (json_hooks L) raw of
            Inl e \<Rightarrow> Inl MastodonAPIError
          | Inr response \<Rightarrow>
             (case response of
                PList items \<Rightarrow>
                  (case headers r ''Link'' of
                     None \<Rightarrow> Inr response
                   | Some link \<Rightarrow>
                      if link = [] then Inr response
                      else
                        (case attach_links method endpoint params
                                (parse_header_links L
                                   (replace_link_sep (rstrip_char CHR ''>'' link))) items of
                           Inl e \<Rightarrow> Inl e
                         | Inr items1 \<Rightarrow> Inr (PList items1)))
              | _ \<Rightarrow> Inr response)))"

definition build_request ::
  "mastodon \<Rightarrow> string \<Rightarrow> string \<Rightarrow> pyval \<Rightarrow> pyval \<Rightarrow> http_request" where
  "build_request self method endpoint params files =
     \<lparr>req_method = method,
      req_url = api_base_url self @ endpoint,
      req_authorization =
        (case access_token self of None \<Rightarrow> None | Some t \<Rightarrow> Some (''Bearer '' @ t)),
      req_params = (if method = ''GET'' then Some params else None),
      req_data = (if method = ''GET'' then None else Some params),
      req_files = Some files,
      req_stream = False\<rparr>"

text \<open>One round of the loop \<^verbatim>\<open>while not request_complete\<close>, given what \<^verbatim>\<open>requests\<close> does.\<close>

definition attempt ::
  "library \<Rightarrow> string \<Rightarrow> string \<Rightarrow> pyval \<Rightarrow> pyval \<Rightarrow> bool \<Rightarrow> http_outcome
     \<Rightarrow> mastodon \<Rightarrow> world \<Rightarrow> attempt_result" where
  "attempt L method endpoint params files do_ratelimiting outcome self w =
     (let w1 = note_request (build_request self method endpoint params files) w in
      case outcome of
        HttpException \<Rightarrow> Done (Inl MastodonNetworkError) self w1
      | HttpNone \<Rightarrow> Done (Inl MastodonIllegalArgumentError) self w1
      | HttpResponse r \<Rightarrow>
         (let w2 = wait_response r w1 in
          case update_ratelimit L do_ratelimiting r self w2 of
            (Some e, self1) \<Rightarrow> Done (Inl e) self1 w2
          | (None, self1) \<Rightarrow>
             if \<not> response_ok r then handle_error L do_ratelimiting r self1 w2
             else Done (handle_success L method endpoint params r) self1 w2))"

text \<open>
  The result of a call that talks to the server: the value returned or the exception
  raised, the client and the world after the call, and the outcomes of \<^verbatim>\<open>requests\<close> not
  yet used. \<open>None\<close>: the call was still retrying when the given outcomes ran out.
\<close>

type_synonym 'a call_result = "('a \<times> mastodon \<times> world \<times> http_outcome list) option"

fun request_loop ::
  "library \<Rightarrow> string \<Rightarrow> string \<Rightarrow> pyval \<Rightarrow> pyval \<Rightarrow> bool \<Rightarrow> http_outcome list
     \<Rightarrow> mastodon \<Rightarrow> world \<Rightarrow> (error + pyval) call_result" where
  "request_loop L method endpoint params files do_ratelimiting [] self w = None"
| "request_loop L method endpoint params files do_ratelimiting (outcome # script) self w =
     (case attempt L method endpoint params files do_ratelimiting outcome self w of
        Again self1 w1 \<Rightarrow>
          request_loop L method endpoint params files do_ratelimiting script self1 w1
      | Done res self1 w1 \<Rightarrow> Some (res, self1, w1, script))"

text \<open>
  \<^verbatim>\<open>__api_request\<close>. \<open>method\<close> and \<open>endpoint\<close> are Python values, since \<^verbatim>\<open>fetch_next\<close>
  passes what it finds in a cursor: when one is not a string, the debug output raises
  \<^verbatim>\<open>TypeError\<close>, and without debug output the call of \<^verbatim>\<open>requests.request\<close> raises inside
  the \<^verbatim>\<open>try\<close>, which makes it a \<^verbatim>\<open>MastodonNetworkError\<close>.
\<close>

definition api_request ::
  "library \<Rightarrow> pyval \<Rightarrow> pyval \<Rightarrow> pyval \<Rightarrow> pyval \<Rightarrow> bool \<Rightarrow> mastodon \<Rightarrow> world
     \<Rightarrow> http_outcome list \<Rightarrow> (error + pyval) call_result" where
  "api_request L method endpoint params files do_ratelimiting self w script =
     (case pace_wait do_ratelimiting self w of
        Inl e \<Rightarrow> Some (Inl e, self, w, script)
      | Inr w1 \<Rightarrow>
         (case (method, endpoint) of
            (PStr m, PStr ep) \<Rightarrow>
              request_loop L m ep params files do_ratelimiting script self w1
          | _ \<Rightarrow>
              Some (Inl (if debug_requests self then TypeError else MastodonNetworkError),
                    self, w1, script)))"

text \<open>
  What a call shows to the outside: its result, the world after it and the outcomes
  left, without the client.
\<close>

definition outcome_of ::
  "(error + pyval) call_result \<Rightarrow> ((error + pyval) \<times> world \<times> http_outcome list) option" where
  "outcome_of c = map_option (\<lambda>(res, self1, w1, script1). (res, w1, script1)) c"

subsection \<open>Pagination\<close>

text \<open>
  The part \<^verbatim>\<open>fetch_next\<close> and \<^verbatim>\<open>fetch_previous\<close> share: take the method and the
  endpoint out of the cursor and make the request with what is left.
\<close>

definition cursor_request ::
  "library \<Rightarrow> pyval \<Rightarrow> mastodon \<Rightarrow> world \<Rightarrow> http_outcome list
     \<Rightarrow> (error + pyval) call_result" where
  "cursor_request L params self w script =
     (case py_getitem params ''_pagination_method'' of
        Inl e \<Rightarrow> Some (Inl e, self, w, script)
      | Inr method \<Rightarrow>
         (case py_delitem params ''_pagination_method'' of
            Inl e \<Rightarrow> Some (Inl e, self, w, script)
          | Inr params1 \<Rightarrow>
             (case py_getitem params1 ''_pagination_endpoint'' of
                Inl e \<Rightarrow> Some (Inl e, self, w, script)
              | Inr endpoint \<Rightarrow>
                 (case py_delitem params1 ''_pagination_endpoint'' of
                    Inl e \<Rightarrow> Some (Inl e, self, w, script)
                  | Inr params2 \<Rightarrow>
                      api_request L method endpoint params2 (PDict []) True self w script))))"

definition fetch_next ::
  "library \<Rightarrow> pyval \<Rightarrow> mastodon \<Rightarrow> world \<Rightarrow> http_outcome list
     \<Rightarrow> (error + pyval) call_result" where
  "fetch_next L previous_page self w script =
     (case previous_page of
        PList (x # xs) \<Rightarrow>
          (case py_contains ''_pagination_next'' (last (x # xs)) of
             Inl e \<Rightarrow> Some (Inl e, self, w, script)
           | Inr present \<Rightarrow>
              if present then
                (case py_getitem (last (x # xs)) ''_pagination_next'' of
                   Inl e \<Rightarrow> Some (Inl e, self, w, script)
                 | Inr params \<Rightarrow> cursor_request L params self w script)
              else Some (Inr PNone, self, w, script))
      | _ \<Rightarrow> cursor_request L previous_page self w script)"

definition fetch_previous ::
  "library \<Rightarrow> pyval \<Rightarrow> mastodon \<Rightarrow> world \<Rightarrow> http_outcome list
     \<Rightarrow> (error + pyval) call_result" where
  "fetch_previous L next_page self w script =
     (case next_page of
        PList (x # xs) \<Rightarrow>
          (case py_contains ''_pagination_prev'' x of
             Inl e \<Rightarrow> Some (Inl e, self, w, script)
           | Inr present \<Rightarrow>
              if present then
                (case py_getitem x ''_pagination_prev'' of
                   Inl e \<Rightarrow> Some (Inl e, self, w, script)
                 | Inr params \<Rightarrow> cursor_request L params self w script)
              else Some (Inr PNone, self, w, script))
      | _ \<Rightarrow> cursor_request L next_page self w script)"

subsection \<open>Streaming\<close>

text \<open>
  The method \<^verbatim>\<open>instance()\<close>, with its version gate, which \<^verbatim>\<open>__stream\<close> starts with
  (\<open>instance\<close> is a keyword of Isabelle).
\<close>

definition instance_get ::
  "library \<Rightarrow> mastodon \<Rightarrow> world \<Rightarrow> http_outcome list \<Rightarrow> (error + pyval) call_result" where
  "instance_get L self w script =
     api_version ''1.1.0'' ''1.4.2'' (\<lambda>e. Some (Inl e, self, w, script))
       (\<lambda>self. api_request L (PStr ''GET'') (PStr ''/api/v1/instance/'') (PDict []) (PDict [])
                  True self w script)
       self"

text \<open>
  "Check if we have to redirect" and the removal of a trailing slash: the base URL the
  stream is opened on, for the value \<open>inst\<close> that \<^verbatim>\<open>self.instance()\<close> returned.
\<close>

definition stream_base_url :: "library \<Rightarrow> mastodon \<Rightarrow> pyval \<Rightarrow> error + string" where
  "stream_base_url L self inst =
     (case py_getitem inst ''urls'' of
        Inl e \<Rightarrow> Inl e
      | Inr urls \<Rightarrow>
         (case py_contains ''streaming_api'' urls of
            Inl e \<Rightarrow> Inl e
          | Inr present \<Rightarrow>
             (case (if present then
                      (case py_getitem urls ''streaming_api'' of
                         Inl e \<Rightarrow> Inl e
                       | Inr streaming_api \<Rightarrow>
                          if streaming_api \<noteq> PStr (api_base_url self) then
                            (case urlparse L streaming_api of
                               Inl e \<Rightarrow> Inl e
                             | Inr (scheme, netloc) \<Rightarrow>
                                if scheme = ''wss'' then Inr (''https://'' @ netloc)
                                else if scheme = ''ws'' then Inr (''http://'' @ netloc)
                                else Inl MastodonAPIError)
                          else Inr (api_base_url self))
                    else Inr (api_base_url self)) of
                Inl e \<Rightarrow> Inl e
              | Inr url \<Rightarrow>
                 if url = [] then Inl IndexError
                 else if last url = CHR ''/'' then Inr (butlast url)
                 else Inr url)))"

text \<open>The handle class of \<^verbatim>\<open>__stream\<close>: its \<^verbatim>\<open>closed\<close> flag.\<close>

record stream_handle =
  closed :: bool

definition close :: "stream_handle \<Rightarrow> stream_handle" where
  "close self = self\<lparr>closed := True\<rparr>"

text \<open>
  \<^verbatim>\<open>_threadproc\<close>. \<open>handler\<close> is what \<^verbatim>\<open>listener.handle_stream(r)\<close> does, \<open>None\<close> when it
  returns and the exception when it raises; \<open>self\<close> is the handle as it is when the
  \<^verbatim>\<open>except\<close> clause reads the flag. Of the exceptions of \<open>error\<close> only \<open>AttributeError\<close>
  is an instance of \<^verbatim>\<open>AttributeError\<close>.
\<close>

definition threadproc :: "stream_handle \<Rightarrow> error option \<Rightarrow> error + int" where
  "threadproc self handler =
     (case handler of
        None \<Rightarrow> Inr 0
      | Some e \<Rightarrow>
         if e = AttributeError then (if \<not> closed self then Inl e else Inr 0)
         else Inl e)"

text \<open>
  What a call of \<^verbatim>\<open>__stream\<close> returns: with \<^verbatim>\<open>async\<close> the handle, whose thread will run
  \<open>threadproc\<close>; without, \<^verbatim>\<open>None\<close> once the handler has returned.
\<close>

datatype stream_result = StreamHandle stream_handle | StreamNone

definition stream_request :: "string \<Rightarrow> string \<Rightarrow> string \<Rightarrow> pyval \<Rightarrow> http_request" where
  "stream_request url endpoint token params =
     \<lparr>req_method = ''GET'',
      req_url = url @ endpoint,
      req_authorization = Some (''Bearer '' @ token),
      req_params = None,
      req_data = Some params,
      req_files = None,
      req_stream = True\<rparr>"

definition stream ::
  "library \<Rightarrow> string \<Rightarrow> error option \<Rightarrow> pyval \<Rightarrow> bool \<Rightarrow> mastodon \<Rightarrow> world
     \<Rightarrow> http_outcome list \<Rightarrow> (error + stream_result) call_result" where
  "stream L endpoint handler params async self w script =
     (case instance_get L self w script of
        None \<Rightarrow> None
      | Some (Inl e, self1, w1, script1) \<Rightarrow> Some (Inl e, self1, w1, script1)
      | Some (Inr inst, self1, w1, script1) \<Rightarrow>
         (case stream_base_url L self1 inst of
            Inl e \<Rightarrow> Some (Inl e, self1, w1, script1)
          | Inr url \<Rightarrow>
             (case access_token self1 of
                None \<Rightarrow> Some (Inl TypeError, self1, w1, script1)
              | Some token \<Rightarrow>
                 (case script1 of
                    [] \<Rightarrow> None
                  | outcome # script2 \<Rightarrow>
                     (let w2 = note_request (stream_request url endpoint token params) w1
                      in case outcome of
                           HttpException \<Rightarrow>
                             Some (Inl (OtherException ''RequestException''), self1, w2, script2)
                         | HttpNone \<Rightarrow> Some (Inl AttributeError, self1, w2, script2)
                         | HttpResponse connection \<Rightarrow>
                            if status_code connection \<noteq> 200
                              then Some (Inl MastodonNetworkError, self1, w2, script2)
                            else if async
                              then Some (Inr (StreamHandle \<lparr>closed = False\<rparr>), self1, w2, script2)
                            else
                              (case handler of
                                 Some e \<Rightarrow> Some (Inl e, self1, w2, script2)
                               | None \<Rightarrow> Some (Inr StreamNone, self1, w2, script2)))))))"

subsection \<open>The constructor\<close>

definition startswith :: "string \<Rightarrow> string \<Rightarrow> bool" where
  "startswith s p = (take (length p) s = p)"

definition protocolize :: "string \<Rightarrow> string" where
  "protocolize base_url =
     rstrip_char CHR ''/''
       (if \<not> startswith base_url ''http://'' \<and> \<not> startswith base_url ''https://''
        then ''https://'' @ base_url else base_url)"

text \<open>
  \<^verbatim>\<open>version_string.split(".")\<close> then the parse, for whatever value the server gave as
  version: a value that is not a string has no method \<^verbatim>\<open>split\<close>, and a record with a key
  \<^verbatim>\<open>split\<close> gives a value that cannot be called.
\<close>

definition parse_version_value :: "pyval \<Rightarrow> error + (int \<times> int \<times> int)" where
  "parse_version_value v =
     (case v of
        PStr s \<Rightarrow> parse_version_string s
      | PAttribDict d \<Rightarrow> if ''split'' \<in> fst ` set d then Inl TypeError else Inl AttributeError
      | _ \<Rightarrow> Inl AttributeError)"

definition retrieve_mastodon_version ::
  "library \<Rightarrow> mastodon \<Rightarrow> world \<Rightarrow> http_outcome list \<Rightarrow> (error + pyval) call_result" where
  "retrieve_mastodon_version L self w script =
     (case api_request L (PStr ''GET'') (PStr ''/api/v1/instance/'') (PDict []) (PDict [])
             True self w script of
        None \<Rightarrow> None
      | Some (res, self1, w1, script1) \<Rightarrow>
         (let version_str =
            (case res of
               Inl e \<Rightarrow> PStr ''1.0.0''
             | Inr inst \<Rightarrow>
                (case py_getitem inst ''version'' of
                   Inl e \<Rightarrow> PStr ''1.0.0''
                 | Inr v \<Rightarrow> v))
          in case parse_version_value version_str of
               Inl e \<Rightarrow> Some (Inl e, self1, w1, script1)
             | Inr (major, minor, patch) \<Rightarrow>
                 Some (Inr version_str,
                       self1\<lparr>mastodon_major := major, mastodon_minor := minor,
                              mastodon_patch := patch\<rparr>, w1, script1)))"

text \<open>The arguments of \<^verbatim>\<open>Mastodon.__init__\<close>.\<close>

record init_args =
  arg_client_id :: string
  arg_client_secret :: "string option"
  arg_access_token :: "string option"
  arg_api_base_url :: string
  arg_debug_requests :: bool
  arg_ratelimit_method :: string
  arg_ratelimit_pacefactor :: real
  arg_request_timeout :: real
  arg_mastodon_version :: "string option"
  arg_version_check_mode :: string

text \<open>\<^verbatim>\<open>f.readline().rstrip()\<close> for line \<open>i\<close> of a file given as its lines.\<close>

definition readline_rstrip :: "string list \<Rightarrow> nat \<Rightarrow> string" where
  "readline_rstrip ls i = (if i < length ls then rstrip (ls ! i) else [])"

text \<open>
  "Token loading", the end of the constructor. \<open>fs\<close> gives the lines of every regular
  file by its path.
\<close>

definition load_tokens :: "(string \<rightharpoonup> string list) \<Rightarrow> mastodon \<Rightarrow> error + mastodon" where
  "load_tokens fs self =
     (case (case fs (client_id self) of
              Some ls \<Rightarrow> Inr (self\<lparr>client_id := readline_rstrip ls 0,
                                     client_secret := Some (readline_rstrip ls 1)\<rparr>)
            | None \<Rightarrow>
               if client_secret self = None then Inl MastodonIllegalArgumentError
               else Inr self) of
        Inl e \<Rightarrow> Inl e
      | Inr self1 \<Rightarrow>
         (case access_token self1 of
            None \<Rightarrow> Inr self1
          | Some t \<Rightarrow>
             (case fs t of
                None \<Rightarrow> Inr self1
              | Some ls \<Rightarrow> Inr (self1\<lparr>access_token := Some (readline_rstrip ls 0)\<rparr>))))"

text \<open>
  \<^verbatim>\<open>Mastodon.__init__\<close>: the client constructed, or the exception raised. The version
  fields and the check mode do not exist before the constructor assigns them; the record
  holds 0 and the empty string until then, and nothing reads them.
\<close>

definition mastodon_init ::
  "library \<Rightarrow> (string \<rightharpoonup> string list) \<Rightarrow> init_args \<Rightarrow> world \<Rightarrow> http_outcome list
     \<Rightarrow> ((error + mastodon) \<times> world \<times> http_outcome list) option" where
  "mastodon_init L fs a w script =
     (let self0 =
        \<lparr>api_base_url = protocolize (arg_api_base_url a),
         client_id = arg_client_id a,
         client_secret = arg_client_secret a,
         access_token = arg_access_token a,
         debug_requests = arg_debug_requests a,
         ratelimit_method = arg_ratelimit_method a,
         ratelimit_limit = 300,
         ratelimit_reset = clock w,
         ratelimit_remaining = 300,
         ratelimit_lastcall = clock w,
         ratelimit_pacefactor = arg_ratelimit_pacefactor a,
         request_timeout = arg_request_timeout a,
         mastodon_major = 0,
         mastodon_minor = 0,
         mastodon_patch = 0,
         version_check_mode = []\<rparr>
      in case (case arg_mastodon_version a of
                 None \<Rightarrow>
                   (case retrieve_mastodon_version L self0 w script of
                      None \<Rightarrow> None
                    | Some (Inl e, self1, w1, script1) \<Rightarrow> Some (Inl e, w1, script1)
                    | Some (Inr v, self1, w1, script1) \<Rightarrow> Some (Inr self1, w1, script1))
               | Some mastodon_version \<Rightarrow>
                   (case parse_version_string mastodon_version of
                      Inl e \<Rightarrow> Some (Inl MastodonVersionError, w, script)
                    | Inr (major, minor, patch) \<Rightarrow>
                        Some (Inr (self0\<lparr>mastodon_major := major, mastodon_minor := minor,
                                          mastodon_patch := patch\<rparr>), w, script))) of
           None \<Rightarrow> None
         | Some (Inl e, w1, script1) \<Rightarrow> Some (Inl e, w1, script1)
         | Some (Inr self1, w1, script1) \<Rightarrow>
            if arg_version_check_mode a \<notin> {''created'', ''changed'', ''none''}
              then Some (Inl MastodonIllegalArgumentError, w1, script1)
            else if arg_ratelimit_method a \<notin> {''throw'', ''wait'', ''pace''}
              then Some (Inl MastodonIllegalArgumentError, w1, script1)
            else Some (load_tokens fs (self1\<lparr>version_check_mode := arg_version_check_mode a\<rparr>),
                       w1, script1))"

subsection \<open>Concrete values\<close>

text \<open>A client as the constructor leaves it, for a given rate limiting method.\<close>

definition example_client :: "string \<Rightarrow> mastodon" where
  "example_client method =
     \<lparr>api_base_url = ''https://mastodon.social'',
      client_id = ''id'',
      client_secret = Some ''secret'',
      access_token = Some ''token'',
      debug_requests = False,
      ratelimit_method = method,
      ratelimit_limit = 300,
      ratelimit_reset = 0,
      ratelimit_remaining = 0,
      ratelimit_lastcall = 0,
      ratelimit_pacefactor = 11 / 10,
      request_timeout = 300,
      mastodon_major = 2,
      mastodon_minor = 4,
      mastodon_patch = 3,
      version_check_mode = ''created''\<rparr>"

text \<open>
  Library functions to evaluate examples with. The date parser reads a decimal number
  of seconds since the epoch, the link parser takes the whole header for the URL of
  one link with relation "next", and \<open>example_urlparse\<close> splits a URL of the form
  \<^verbatim>\<open>scheme://netloc/...\<close> as \<^verbatim>\<open>urlparse\<close> does.
\<close>

definition example_urlparse :: "pyval \<Rightarrow> error + (string \<times> string)" where
  "example_urlparse v =
     (case v of
        PStr s \<Rightarrow>
          (let scheme = takeWhile (\<lambda>c. c \<noteq> CHR '':'') s;
               rest = drop (length scheme + 1) s
           in if take 2 rest = ''//''
              then Inr (scheme, takeWhile (\<lambda>c. c \<notin> set ''/?#'') (drop 2 rest))
              else Inr (scheme, []))
      | _ \<Rightarrow> Inl AttributeError)"

definition example_library :: library where
  "example_library =
     \<lparr>dateutil_parse =
        (\<lambda>v. case v of
                PStr s \<Rightarrow>
                  (case python_int s of
                     Inr n \<Rightarrow> Some (Datetime (real_of_int n) True)
                   | Inl e \<Rightarrow> None)
              | _ \<Rightarrow> None),
      fromtimestamp_ok = (\<lambda>n. - 62135596800 \<le> n \<and> n \<le> 253402300799),
      parse_header_links = (\<lambda>s. [[(''url'', s), (''rel'', ''next'')]]),
      urlparse = example_urlparse\<rparr>"


definition example_world :: world where
  "example_world = \<lparr>clock = 1000, sleeps = [], sent = []\<rparr>"

definition example_args :: "string option \<Rightarrow> init_args" where
  "example_args version =
     \<lparr>arg_client_id = ''id'',
      arg_client_secret = Some ''secret'',
      arg_access_token = Some ''token'',
      arg_api_base_url = ''mastodon.social/'',
      arg_debug_requests = False,
      arg_ratelimit_method = ''wait'',
      arg_ratelimit_pacefactor = 11 / 10,
      arg_request_timeout = 300,
      arg_mastodon_version = version,
      arg_version_check_mode = ''created''\<rparr>"

text \<open>Responses of a server, and the request for the home timeline.\<close>

definition limited_response :: response where
  "limited_response =
     \<lparr>status_code = 429,
      headers = [''X-RateLimit-Remaining'' \<mapsto> ''0'', ''X-RateLimit-Limit'' \<mapsto> ''300'',
                 ''X-RateLimit-Reset'' \<mapsto> ''1120''],
      body = Some (PDict [(''error'', PStr ''Too many requests'')]),
      elapsed = 1\<rparr>"

definition bare_429_response :: response where
  "bare_429_response = \<lparr>status_code = 429, headers = Map.empty, body = None, elapsed = 1\<rparr>"

definition empty_page_response :: response where
  "empty_page_response =
     \<lparr>status_code = 200, headers = Map.empty, body = Some (PList []), elapsed = 1\<rparr>"

definition home_request :: "string \<Rightarrow> http_request" where
  "home_request method =
     build_request (example_client method) ''GET'' ''/api/v1/timelines/home'' (PDict [])
       (PDict [])"

text \<open>The response to the request for the instance, its decoded value, and that request.\<close>

definition instance_response :: response where
  "instance_response =
     \<lparr>status_code = 200,
      headers = Map.empty,
      body = Some (PDict [(''uri'', PStr ''mastodon.social''),
                          (''version'', PStr ''2.4.3''),
                          (''urls'', PDict [(''streaming_api'', PStr ''wss://stream.example/'')])]),
      elapsed = 1\<rparr>"

definition connection_response :: response where
  "connection_response =
     \<lparr>status_code = 200, headers = Map.empty, body = None, elapsed = 1\<rparr>"

definition instance_value :: pyval where
  "instance_value =
     PAttribDict [(''uri'', PStr ''mastodon.social''),
                  (''version'', PStr ''2.4.3''),
                  (''urls'', PAttribDict [(''streaming_api'', PStr ''wss://stream.example/'')])]"

definition instance_request :: http_request where
  "instance_request =
     build_request (example_client ''wait'') ''GET'' ''/api/v1/instance/'' (PDict []) (PDict [])"











section \<open>Properties\<close>

subsection \<open>Version gate\<close>

lemma less_eq_triple:
  "((a::int, b::int, c::int) \<le> (x, y, z)) =
     (\<not> (a > x \<or> (a = x \<and> b > y) \<or> (a = x \<and> b = y \<and> c > z)))"
  by (auto simp: less_eq_prod_def)

text \<open>
  Claim C1. With check mode "none" the gate always passes. With any other mode the
  version checked is the one the feature was introduced in for mode "created" and the
  one it last changed in otherwise ("changed"); when that version parses to \<open>(a, b, c)\<close>
  the wrapped method runs if and only if \<open>(a, b, c) \<le> (major, minor, patch)\<close> of the
  server in the lexicographic order, equality included, and \<^verbatim>\<open>MastodonVersionError\<close> is
  raised otherwise.
\<close>

theorem version_gate:
  "(version_check_mode self = ''none'' \<longrightarrow>
      api_version created_ver last_changed_ver raise function self = function self) \<and>
   (version_check_mode self \<noteq> ''none'' \<and>
    parse_version_string (if version_check_mode self = ''created'' then created_ver
                          else last_changed_ver) = Inr (a, b, c) \<longrightarrow>
      api_version created_ver last_changed_ver raise function self =
        (if (a, b, c) \<le> (mastodon_major self, mastodon_minor self, mastodon_patch self)
         then function self else raise MastodonVersionError))"
  by (auto simp: api_version_def less_eq_triple)

lemmas int_parse_defs = python_int_def int_strip_def is_int_space_def is_digit_def
  digits_value_def digit_val_def match_digits_def version_part_def parse_version_string_def

theorem version_gate_witness:
  "version_check_mode (example_client ''wait'') \<noteq> ''none'' \<and>
   parse_version_string ''2.4.3rc1'' = Inr (2, 4, 3) \<and>
   api_version ''2.4.3rc1'' ''2.4.4'' Inl (\<lambda>self. Inr (mastodon_patch self))
     (example_client ''wait'') = Inr 3 \<and>
   api_version ''2.4.3rc1'' ''2.4.4'' Inl (\<lambda>self. Inr (mastodon_patch self))
     ((example_client ''wait'')\<lparr>version_check_mode := ''changed''\<rparr>) = Inl MastodonVersionError \<and>
   api_version ''2.4.3rc1'' ''2.4.4'' Inl (\<lambda>self. Inr (mastodon_patch self))
     ((example_client ''wait'')\<lparr>version_check_mode := ''none''\<rparr>) = Inr 3"
proof -
  have p1: "parse_version_string ''2.4.3rc1'' = Inr (2, 4, 3)"
    by (simp add: int_parse_defs)
  have p2: "parse_version_string ''2.4.4'' = Inr (2, 4, 4)"
    by (simp add: int_parse_defs)
  show ?thesis
    using p1 p2
      version_gate [of "example_client ''wait''" "''2.4.3rc1''" "''2.4.4''" Inl
        "\<lambda>self. Inr (mastodon_patch self)" 2 4 3]
      version_gate [of "(example_client ''wait'')\<lparr>version_check_mode := ''changed''\<rparr>"
        "''2.4.3rc1''" "''2.4.4''" Inl "\<lambda>self. Inr (mastodon_patch self)" 2 4 4]
      version_gate [of "(example_client ''wait'')\<lparr>version_check_mode := ''none''\<rparr>"
        "''2.4.3rc1''" "''2.4.4''" Inl "\<lambda>self. Inr (mastodon_patch self)" 0 0 0]
    by (simp add: example_client_def less_eq_triple)
qed

subsection \<open>Version parsing\<close>

lemma digit_not_space: "is_digit c \<Longrightarrow> \<not> is_int_space c"
  by (auto simp: is_digit_def is_int_space_def)

lemma digit_not_sign:
  "is_digit c \<Longrightarrow>
     c \<noteq> CHR ''-'' \<and> c \<noteq> CHR ''+'' \<and> c \<noteq> CHR ''_'' \<and> c \<noteq> CHR ''.''"
  by (auto simp: is_digit_def)

lemma digits_no_dot: "\<forall>c\<in>set d. is_digit c \<Longrightarrow> CHR ''.'' \<notin> set d"
  using digit_not_sign by blast

lemma strip_digits:
  assumes "d \<noteq> []" "\<forall>c\<in>set d. is_digit c"
  shows "int_strip d = d"
proof -
  have "\<not> is_int_space (hd (rev d))" "\<not> is_int_space (hd d)"
    using assms by (simp_all add: digit_not_space hd_rev)
  moreover have "rev d \<noteq> []" using assms by simp
  ultimately have "dropWhile is_int_space (rev d) = rev d" "dropWhile is_int_space d = d"
    using assms
    by (metis dropWhile_eq_self_iff list.set_sel(1) hd_dropWhile dropWhile_eq_Nil_conv)+
  then show ?thesis by (simp add: int_strip_def)
qed

lemma int_literal_ok_digits:
  "d \<noteq> [] \<Longrightarrow> \<forall>c\<in>set d. is_digit c \<Longrightarrow> int_literal_ok d"
  by (induction d rule: int_literal_ok.induct) (auto simp: digit_not_sign)

lemma python_int_digits:
  assumes "d \<noteq> []" "\<forall>c\<in>set d. is_digit c"
  shows "python_int d = Inr (digits_value d)"
proof -
  have f: "filter (\<lambda>c. c \<noteq> CHR ''_'') d = d"
    using assms(2) by (simp add: digit_not_sign)
  have h: "hd d \<noteq> CHR ''-''" "hd d \<noteq> CHR ''+''"
    using assms by (simp_all add: digit_not_sign)
  show ?thesis
    using assms h f by (simp add: python_int_def strip_digits int_literal_ok_digits Let_def)
qed

lemma match_digits_append:
  "\<forall>c\<in>set d. is_digit c \<Longrightarrow> s = [] \<or> \<not> is_digit (hd s) \<Longrightarrow> match_digits (d @ s) = d"
  by (cases s) (auto simp: match_digits_def takeWhile_append)

lemma split_on_nodot: "sep \<notin> set p \<Longrightarrow> split_on sep p = [p]"
  by (induction p) auto

lemma split_on_append:
  "sep \<notin> set p \<Longrightarrow> split_on sep (p @ sep # rest) = p # split_on sep rest"
  by (induction p) auto

lemma parse_version_string_general:
  assumes "d1 \<noteq> []" "\<forall>c\<in>set d1. is_digit c" "d2 \<noteq> []" "\<forall>c\<in>set d2. is_digit c"
    "d3 \<noteq> []" "\<forall>c\<in>set d3. is_digit c"
    "CHR ''.'' \<notin> set s1" "s1 = [] \<or> \<not> is_digit (hd s1)"
    "CHR ''.'' \<notin> set s2" "s2 = [] \<or> \<not> is_digit (hd s2)"
    "CHR ''.'' \<notin> set s3" "s3 = [] \<or> \<not> is_digit (hd s3)"
  shows "parse_version_string (d1 @ s1 @ ''.'' @ d2 @ s2 @ ''.'' @ d3 @ s3) =
           Inr (digits_value d1, digits_value d2, digits_value d3)"
proof -
  have nd: "CHR ''.'' \<notin> set (d1 @ s1)" "CHR ''.'' \<notin> set (d2 @ s2)"
    "CHR ''.'' \<notin> set (d3 @ s3)"
    using assms by (simp_all add: digits_no_dot)
  have "split_on CHR ''.'' (d1 @ s1 @ ''.'' @ d2 @ s2 @ ''.'' @ d3 @ s3)
          = [d1 @ s1, d2 @ s2, d3 @ s3]"
    using split_on_append [OF nd(1), of "d2 @ s2 @ ''.'' @ d3 @ s3"]
      split_on_append [OF nd(2), of "d3 @ s3"] split_on_nodot [OF nd(3)]
    by simp
  then show ?thesis
    using assms
    by (simp add: parse_version_string_def version_part_def match_digits_append
        python_int_digits)
qed

lemma init_bad_version:
  "arg_mastodon_version a = Some ''abc'' \<Longrightarrow>
     mastodon_init L fs a w script = Some (Inl MastodonVersionError, w, script)"
  by (simp add: mastodon_init_def int_parse_defs Let_def)

text \<open>
  Claim C9. \<^verbatim>\<open>"2.4.3rc1"\<close> parses to \<open>(2, 4, 3)\<close>; \<^verbatim>\<open>"abc"\<close> makes the parser raise
  (\<^verbatim>\<open>ValueError\<close>, from \<^verbatim>\<open>int('')\<close>), and the constructor called with it raises
  \<^verbatim>\<open>MastodonVersionError\<close> before anything else happens. In general, when each of the
  three dotted components is a non-empty run of digits followed by a suffix that has
  no dot and does not start with a digit, the result is the three numbers, the
  suffixes being dropped.
\<close>

theorem parse_version_string_strips:
  "parse_version_string ''2.4.3rc1'' = Inr (2, 4, 3) \<and>
   parse_version_string ''abc'' = Inl ValueError \<and>
   (arg_mastodon_version a = Some ''abc'' \<longrightarrow>
      mastodon_init L fs a w script = Some (Inl MastodonVersionError, w, script)) \<and>
   (d1 \<noteq> [] \<and> (\<forall>c\<in>set d1. is_digit c) \<and> d2 \<noteq> [] \<and> (\<forall>c\<in>set d2. is_digit c) \<and>
    d3 \<noteq> [] \<and> (\<forall>c\<in>set d3. is_digit c) \<and>
    CHR ''.'' \<notin> set s1 \<and> (s1 = [] \<or> \<not> is_digit (hd s1)) \<and>
    CHR ''.'' \<notin> set s2 \<and> (s2 = [] \<or> \<not> is_digit (hd s2)) \<and>
    CHR ''.'' \<notin> set s3 \<and> (s3 = [] \<or> \<not> is_digit (hd s3)) \<longrightarrow>
      parse_version_string (d1 @ s1 @ ''.'' @ d2 @ s2 @ ''.'' @ d3 @ s3) =
        Inr (digits_value d1, digits_value d2, digits_value d3))"
proof -
  have "parse_version_string ''2.4.3rc1'' = Inr (2, 4, 3)"
    by (simp add: int_parse_defs)
  moreover have "parse_version_string ''abc'' = Inl ValueError"
    by (simp add: int_parse_defs)
  ultimately show ?thesis
    using init_bad_version [of a L fs w script]
      parse_version_string_general [of d1 d2 d3 s1 s2 s3]
    by blast
qed

theorem parse_version_string_strips_witness:
  "arg_mastodon_version (example_args (Some ''abc'')) = Some ''abc'' \<and>
   mastodon_init example_library Map.empty (example_args (Some ''abc'')) example_world []
     = Some (Inl MastodonVersionError, example_world, []) \<and>
   parse_version_string ''10beta.0.7-rc2'' = Inr (10, 0, 7)"
proof -
  have v: "digits_value ''10'' = 10" "digits_value ''0'' = 0" "digits_value ''7'' = 7"
    by (simp_all add: digits_value_def digit_val_def)
  have a: "arg_mastodon_version (example_args (Some ''abc'')) = Some ''abc''"
    by (simp add: example_args_def)
  show ?thesis
    using a v
      parse_version_string_strips [of "example_args (Some ''abc'')" example_library
        Map.empty example_world "[]" "''10''" "''0''" "''7''" "''beta''" "[]" "''-rc2''"]
    by (simp add: is_digit_def)
qed

subsection \<open>Rate limiting\<close>

lemma update_ratelimit_keeps:
  "update_ratelimit L d r self w = (eo, self1) \<Longrightarrow>
     ratelimit_method self1 = ratelimit_method self \<and>
     api_base_url self1 = api_base_url self \<and>
     access_token self1 = access_token self"
  by (auto simp: update_ratelimit_def Let_def split: option.splits sum.splits if_splits)

lemma attempt_response:
  assumes "update_ratelimit L d r self
           (wait_response r (note_request (build_request self m ep params files) w))
             = (None, self1)"
  shows "attempt L m ep params files d (HttpResponse r) self w =
     (if \<not> response_ok r
      then handle_error L d r self1
             (wait_response r (note_request (build_request self m ep params files) w))
      else Done (handle_success L m ep params r) self1
             (wait_response r (note_request (build_request self m ep params files) w)))"
  unfolding attempt_def Let_def using assms by simp

lemma handle_error_429:
  assumes "status_code r = 429" "error_message L r = Inr msg"
  shows "handle_error L d r self w =
     (if ratelimit_method self = ''throw'' \<or> \<not> d
        then Done (Inl MastodonRatelimitError) self w
      else if ratelimit_method self \<in> {''wait'', ''pace''} \<and> ratelimit_reset self - clock w > 0
        then Again self (time_sleep (min (ratelimit_reset self - clock w) 300) w)
      else Done (Inl MastodonAPIError) self w)"
  unfolding handle_error_def Let_def using assms by (simp add: error_for_status_def)

lemma sleeps_steps [simp]:
  "sleeps (note_request req w) = sleeps w" "sleeps (wait_response r w) = sleeps w"
  by (simp_all add: note_request_def wait_response_def)

lemma handle_error_throw:
  "ratelimit_method self = ''throw'' \<Longrightarrow>
     \<exists>res. handle_error L d r self w = Done res self w"
  by (auto simp: handle_error_def Let_def split: sum.splits)

lemma attempt_throw:
  assumes "ratelimit_method self = ''throw''"
  shows "\<exists>res self1 w1. attempt L m ep params files d outcome self w = Done res self1 w1
           \<and> sleeps w1 = sleeps w"
proof (cases outcome)
  case HttpException
  then show ?thesis by (simp add: attempt_def)
next
  case HttpNone
  then show ?thesis by (simp add: attempt_def)
next
  case (HttpResponse r)
  let ?w2 = "wait_response r (note_request (build_request self m ep params files) w)"
  obtain eo self1 where u: "update_ratelimit L d r self ?w2 = (eo, self1)"
    by (cases "update_ratelimit L d r self ?w2")
  then have m1: "ratelimit_method self1 = ''throw''"
    using update_ratelimit_keeps assms by metis
  from handle_error_throw [OF m1] obtain res where
    h: "handle_error L d r self1 ?w2 = Done res self1 ?w2" by blast
  show ?thesis
    using HttpResponse u h by (cases eo) (simp_all add: attempt_def Let_def)
qed

lemma pace_wait_not_pace:
  "ratelimit_method self \<noteq> ''pace'' \<Longrightarrow> pace_wait d self w = Inr w"
  by (simp add: pace_wait_def)

lemma api_request_throw_sleeps:
  assumes "ratelimit_method self = ''throw''"
    and "api_request L method endpoint params files d self w script = Some (res, self', w', script')"
  shows "sleeps w' = sleeps w"
proof -
  have pw: "pace_wait d self w = Inr w" using assms(1) by (simp add: pace_wait_not_pace)
  show ?thesis
  proof (cases "\<exists>m ep. method = PStr m \<and> endpoint = PStr ep")
    case True
    then obtain m ep where me: "method = PStr m" "endpoint = PStr ep" by blast
    show ?thesis
    proof (cases script)
      case Nil
      then show ?thesis using assms me pw by (simp add: api_request_def)
    next
      case (Cons outcome rest)
      from attempt_throw [OF assms(1), of L m ep params files d outcome w]
      obtain r1 s1 w1 where a: "attempt L m ep params files d outcome self w = Done r1 s1 w1"
        "sleeps w1 = sleeps w" by blast
      then show ?thesis using assms me Cons pw by (simp add: api_request_def)
    qed
  next
    case False
    then show ?thesis
      using assms pw by (auto simp: api_request_def split: pyval.splits)
  qed
qed

lemma api_request_429_throw:
  assumes "ratelimit_method self = ''throw''"
    and "status_code r = 429"
    and "update_ratelimit L d r self
           (wait_response r (note_request (build_request self m ep params files) w))
             = (None, self1)"
    and "error_message L r = Inr msg"
  shows "api_request L (PStr m) (PStr ep) params files d self w (HttpResponse r # script)
          = Some (Inl MastodonRatelimitError, self1,
                  wait_response r (note_request (build_request self m ep params files) w),
                  script)"
proof -
  have m1: "ratelimit_method self1 = ''throw''"
    using update_ratelimit_keeps assms(1,3) by metis
  have pw: "pace_wait d self w = Inr w" using assms(1) by (simp add: pace_wait_not_pace)
  have nok: "\<not> response_ok r" using assms(2) by (simp add: response_ok_def)
  have a: "attempt L m ep params files d (HttpResponse r) self w =
      Done (Inl MastodonRatelimitError) self1
        (wait_response r (note_request (build_request self m ep params files) w))"
    using attempt_response [OF assms(3)] nok handle_error_429 [OF assms(2,4)] m1 by simp
  show ?thesis
    using pw a by (simp add: api_request_def)
qed

lemma update_ratelimit_remaining:
  "fst (update_ratelimit L d r (self\<lparr>ratelimit_remaining := n\<rparr>) w)
     = fst (update_ratelimit L d r self w)"
  by (auto simp: update_ratelimit_def Let_def split: option.splits sum.splits)

lemma handle_error_throw_same:
  assumes "ratelimit_method s1 = ''throw''" "ratelimit_method s2 = ''throw''"
  shows "\<exists>res. handle_error L d r s1 w = Done res s1 w \<and> handle_error L d r s2 w = Done res s2 w"
  using assms by (auto simp: handle_error_def Let_def split: sum.splits)

lemma build_request_remaining:
  "build_request (self\<lparr>ratelimit_remaining := n\<rparr>) m ep params files
     = build_request self m ep params files"
  by (simp add: build_request_def)

lemma attempt_throw_remaining:
  assumes "ratelimit_method self = ''throw''"
  shows "\<exists>res s1 s2 w1.
           attempt L m ep params files d outcome self w = Done res s1 w1 \<and>
           attempt L m ep params files d outcome (self\<lparr>ratelimit_remaining := n\<rparr>) w
             = Done res s2 w1"
proof (cases outcome)
  case HttpException
  then show ?thesis by (simp add: attempt_def build_request_remaining)
next
  case HttpNone
  then show ?thesis by (simp add: attempt_def build_request_remaining)
next
  case (HttpResponse r)
  let ?w2 = "wait_response r (note_request (build_request self m ep params files) w)"
  obtain eo s1 where u1: "update_ratelimit L d r self ?w2 = (eo, s1)"
    by (cases "update_ratelimit L d r self ?w2")
  obtain eo2 s2 where u2:
    "update_ratelimit L d r (self\<lparr>ratelimit_remaining := n\<rparr>) ?w2 = (eo2, s2)"
    by (cases "update_ratelimit L d r (self\<lparr>ratelimit_remaining := n\<rparr>) ?w2")
  have e: "eo2 = eo"
    using update_ratelimit_remaining [where L = L and d = d and r = r and self = self
        and n = n and w = ?w2] u1 u2 by simp
  have m1: "ratelimit_method s1 = ''throw''"
    using update_ratelimit_keeps [OF u1] assms by simp
  have m2: "ratelimit_method s2 = ''throw''"
    using update_ratelimit_keeps [OF u2] assms by simp
  from handle_error_throw_same [OF m1 m2] obtain res where
    h: "handle_error L d r s1 ?w2 = Done res s1 ?w2"
       "handle_error L d r s2 ?w2 = Done res s2 ?w2" by blast
  show ?thesis
    using HttpResponse u1 u2 e h
    by (cases eo) (simp_all add: attempt_def Let_def build_request_remaining)
qed

lemma api_request_throw_remaining:
  assumes "ratelimit_method self = ''throw''"
  shows "outcome_of (api_request L method endpoint params files d
                       (self\<lparr>ratelimit_remaining := n\<rparr>) w script)
           = outcome_of (api_request L method endpoint params files d self w script)"
proof -
  have pw: "pace_wait d self w = Inr w"
    "pace_wait d (self\<lparr>ratelimit_remaining := n\<rparr>) w = Inr w"
    using assms by (simp_all add: pace_wait_not_pace)
  show ?thesis
  proof (cases "\<exists>m ep. method = PStr m \<and> endpoint = PStr ep")
    case True
    then obtain m ep where me: "method = PStr m" "endpoint = PStr ep" by blast
    show ?thesis
    proof (cases script)
      case Nil
      then show ?thesis using me pw by (simp add: api_request_def outcome_of_def)
    next
      case (Cons outcome rest)
      from attempt_throw_remaining [OF assms, where L = L and m = m and ep = ep
          and params = params and files = files and d = d and outcome = outcome and w = w
          and n = n]
      obtain res s1 s2 w1 where
        "attempt L m ep params files d outcome self w = Done res s1 w1"
        "attempt L m ep params files d outcome (self\<lparr>ratelimit_remaining := n\<rparr>) w
           = Done res s2 w1" by blast
      then show ?thesis using me Cons pw by (simp add: api_request_def outcome_of_def)
    qed
  next
    case False
    then show ?thesis
      using pw by (auto simp: api_request_def outcome_of_def split: pyval.splits)
  qed
qed

lemma api_request_success:
  assumes "ratelimit_method self \<noteq> ''pace''"
    and "response_ok r"
    and "update_ratelimit L d r self
           (wait_response r (note_request (build_request self m ep params files) w))
             = (None, self1)"
  shows "api_request L (PStr m) (PStr ep) params files d self w (HttpResponse r # rest)
          = Some (handle_success L m ep params r, self1,
                  wait_response r (note_request (build_request self m ep params files) w),
                  rest)"
  using pace_wait_not_pace [OF assms(1)] attempt_response [OF assms(3)] assms(2)
  by (simp add: api_request_def)


text \<open>
  Claim C2, amended. With the method "throw", whatever the tracked remaining count is:
  a call never sleeps (no sleep is logged between its start and its end); what the call
  does is the same for every value of the tracked remaining count; when the response
  has status 429, its rate limiting headers are read without exception and its body
  is decoded to an error message without exception, the call raises
  \<^verbatim>\<open>MastodonRatelimitError\<close> right after that response, without a further request; and
  when the response is a success whose rate limiting headers are read without
  exception, the call returns what decoding the body gives.
\<close>

theorem throw_policy:
  "ratelimit_method self = ''throw'' \<longrightarrow>
     (api_request L http_method endpoint params files d self w script
        = Some (res, self', w', script') \<longrightarrow> sleeps w' = sleeps w) \<and>
     outcome_of (api_request L http_method endpoint params files d
                   (self\<lparr>ratelimit_remaining := n\<rparr>) w script)
       = outcome_of (api_request L http_method endpoint params files d self w script) \<and>
     (status_code r = 429 \<and>
      update_ratelimit L d r self
        (wait_response r (note_request (build_request self m ep params files) w))
          = (None, self_r) \<and>
      error_message L r = Inr msg \<longrightarrow>
        api_request L (PStr m) (PStr ep) params files d self w (HttpResponse r # rest)
          = Some (Inl MastodonRatelimitError, self_r,
                  wait_response r (note_request (build_request self m ep params files) w),
                  rest)) \<and>
     (response_ok r \<and>
      update_ratelimit L d r self
        (wait_response r (note_request (build_request self m ep params files) w))
          = (None, self_r) \<longrightarrow>
        api_request L (PStr m) (PStr ep) params files d self w (HttpResponse r # rest)
          = Some (handle_success L m ep params r, self_r,
                  wait_response r (note_request (build_request self m ep params files) w),
                  rest))"
proof (intro impI conjI)
  assume t: "ratelimit_method self = ''throw''"
    and a: "api_request L http_method endpoint params files d self w script
              = Some (res, self', w', script')"
  show "sleeps w' = sleeps w" by (rule api_request_throw_sleeps [OF t a])
next
  assume t: "ratelimit_method self = ''throw''"
  show "outcome_of (api_request L http_method endpoint params files d
                   (self\<lparr>ratelimit_remaining := n\<rparr>) w script)
       = outcome_of (api_request L http_method endpoint params files d self w script)"
    by (rule api_request_throw_remaining [OF t])
next
  assume t: "ratelimit_method self = ''throw''"
    and h: "status_code r = 429 \<and>
      update_ratelimit L d r self
        (wait_response r (note_request (build_request self m ep params files) w))
          = (None, self_r) \<and>
      error_message L r = Inr msg"
  from h have h1: "status_code r = 429"
    and h2: "update_ratelimit L d r self
        (wait_response r (note_request (build_request self m ep params files) w))
          = (None, self_r)"
    and h3: "error_message L r = Inr msg" by simp_all
  show "api_request L (PStr m) (PStr ep) params files d self w (HttpResponse r # rest)
          = Some (Inl MastodonRatelimitError, self_r,
                  wait_response r (note_request (build_request self m ep params files) w),
                  rest)"
    by (rule api_request_429_throw [OF t h1 h2 h3])
next
  assume t: "ratelimit_method self = ''throw''"
    and h: "response_ok r \<and>
      update_ratelimit L d r self
        (wait_response r (note_request (build_request self m ep params files) w))
          = (None, self_r)"
  from t have np: "ratelimit_method self \<noteq> ''pace''" by simp
  from h have h1: "response_ok r"
    and h2: "update_ratelimit L d r self
        (wait_response r (note_request (build_request self m ep params files) w))
          = (None, self_r)" by simp_all
  show "api_request L (PStr m) (PStr ep) params files d self w (HttpResponse r # rest)
          = Some (handle_success L m ep params r, self_r,
                  wait_response r (note_request (build_request self m ep params files) w),
                  rest)"
    by (rule api_request_success [OF np h1 h2])
qed

lemmas eval_int = python_int_def int_strip_def is_int_space_def is_digit_def
  digits_value_def digit_val_def

lemmas eval_hooks = json_hooks_def json_strnum_to_bignum_def bignum_keys_def strnum_key_def
  json_date_parse_def known_date_fields_def json_allow_dict_attrs_def

lemma limited_update:
  "update_ratelimit example_library True limited_response (example_client method) w =
    (None, (example_client method)\<lparr>ratelimit_limit := 300, ratelimit_reset := 1120\<rparr>)"
  by (simp add: update_ratelimit_def limited_response_def example_library_def
      example_client_def datetime_to_epoch_def eval_int Let_def)

lemma limited_message:
  "error_message example_library limited_response = Inr (PStr ''Too many requests'')"
  by (simp add: error_message_def limited_response_def eval_hooks)

lemma empty_page_update:
  "update_ratelimit example_library True empty_page_response (example_client method) w
     = (None, example_client method)"
  by (simp add: update_ratelimit_def empty_page_response_def)

lemma empty_page_success:
  "handle_success example_library ''GET'' ''/api/v1/timelines/home'' (PDict [])
     empty_page_response = Inr (PList [])"
  by (simp add: handle_success_def empty_page_response_def)

lemma home_world:
  "status_code r = c \<Longrightarrow> elapsed r = 1 \<Longrightarrow>
   wait_response r (note_request
       (build_request (example_client method) ''GET'' ''/api/v1/timelines/home''
          (PDict []) (PDict [])) example_world)
     = \<lparr>clock = 1001, sleeps = [], sent = [home_request method]\<rparr>"
  by (simp add: wait_response_def note_request_def example_world_def home_request_def)

theorem throw_policy_witness:
  "ratelimit_method (example_client ''throw'') = ''throw'' \<and>
   ratelimit_remaining (example_client ''throw'') = 0 \<and>
   status_code limited_response = 429 \<and>
   api_request example_library (PStr ''GET'') (PStr ''/api/v1/timelines/home'') (PDict [])
     (PDict []) True (example_client ''throw'') example_world
     [HttpResponse limited_response, HttpResponse empty_page_response]
   = Some (Inl MastodonRatelimitError,
           (example_client ''throw'')\<lparr>ratelimit_limit := 300, ratelimit_reset := 1120\<rparr>,
           \<lparr>clock = 1001, sleeps = [], sent = [home_request ''throw'']\<rparr>,
           [HttpResponse empty_page_response]) \<and>
   sleeps \<lparr>clock = 1001, sleeps = [], sent = [home_request ''throw'']\<rparr> = sleeps example_world \<and>
   response_ok empty_page_response \<and>
   api_request example_library (PStr ''GET'') (PStr ''/api/v1/timelines/home'') (PDict [])
     (PDict []) True (example_client ''throw'') example_world
     [HttpResponse empty_page_response]
   = Some (Inr (PList []), example_client ''throw'',
           \<lparr>clock = 1001, sleeps = [], sent = [home_request ''throw'']\<rparr>, []) \<and>
   outcome_of
     (api_request example_library (PStr ''GET'') (PStr ''/api/v1/timelines/home'') (PDict [])
        (PDict []) True ((example_client ''throw'')\<lparr>ratelimit_remaining := 5\<rparr>) example_world
        [HttpResponse empty_page_response])
   = Some (Inr (PList []), \<lparr>clock = 1001, sleeps = [], sent = [home_request ''throw'']\<rparr>, [])"
proof -
  have m: "ratelimit_method (example_client ''throw'') = ''throw''"
    "ratelimit_remaining (example_client ''throw'') = 0"
    by (simp_all add: example_client_def)
  have s: "status_code limited_response = 429" "elapsed limited_response = 1"
    by (simp_all add: limited_response_def)
  have o: "response_ok empty_page_response" "elapsed empty_page_response = 1"
    by (simp_all add: response_ok_def empty_page_response_def)
  note A = throw_policy [where self = "example_client ''throw''" and L = example_library
      and http_method = "PStr ''GET''" and endpoint = "PStr ''/api/v1/timelines/home''"
      and params = "PDict []" and files = "PDict []" and d = True and w = example_world
      and script = "[HttpResponse limited_response, HttpResponse empty_page_response]"
      and res = "Inl MastodonRatelimitError"
      and self' = "(example_client ''throw'')\<lparr>ratelimit_limit := 300, ratelimit_reset := 1120\<rparr>"
      and w' = "\<lparr>clock = 1001, sleeps = [], sent = [home_request ''throw'']\<rparr>"
      and script' = "[HttpResponse empty_page_response]"
      and n = 5 and r = limited_response and m = "''GET''"
      and ep = "''/api/v1/timelines/home''"
      and self_r = "(example_client ''throw'')\<lparr>ratelimit_limit := 300, ratelimit_reset := 1120\<rparr>"
      and msg = "PStr ''Too many requests''" and rest = "[HttpResponse empty_page_response]"]
  note B = throw_policy [where self = "example_client ''throw''" and L = example_library
      and http_method = "PStr ''GET''" and endpoint = "PStr ''/api/v1/timelines/home''"
      and params = "PDict []" and files = "PDict []" and d = True and w = example_world
      and script = "[HttpResponse empty_page_response]"
      and res = "Inr (PList [])" and self' = "example_client ''throw''"
      and w' = "\<lparr>clock = 1001, sleeps = [], sent = [home_request ''throw'']\<rparr>"
      and script' = "[]"
      and n = 5 and r = empty_page_response and m = "''GET''"
      and ep = "''/api/v1/timelines/home''" and self_r = "example_client ''throw''"
      and msg = PNone and rest = "[]"]
  have a3: "api_request example_library (PStr ''GET'') (PStr ''/api/v1/timelines/home'')
     (PDict []) (PDict []) True (example_client ''throw'') example_world
     [HttpResponse limited_response, HttpResponse empty_page_response]
   = Some (Inl MastodonRatelimitError,
           (example_client ''throw'')\<lparr>ratelimit_limit := 300, ratelimit_reset := 1120\<rparr>,
           \<lparr>clock = 1001, sleeps = [], sent = [home_request ''throw'']\<rparr>,
           [HttpResponse empty_page_response])"
    using A m(1) s(1) limited_update limited_message home_world [OF s] by simp
  have a1: "sleeps \<lparr>clock = 1001, sleeps = [], sent = [home_request ''throw'']\<rparr>
              = sleeps example_world"
    using A m(1) a3 by blast
  have b4: "api_request example_library (PStr ''GET'') (PStr ''/api/v1/timelines/home'')
     (PDict []) (PDict []) True (example_client ''throw'') example_world
     [HttpResponse empty_page_response]
   = Some (Inr (PList []), example_client ''throw'',
           \<lparr>clock = 1001, sleeps = [], sent = [home_request ''throw'']\<rparr>, [])"
    using B m(1) o(1) empty_page_update empty_page_success
      home_world [OF refl o(2)] by simp
  have b2: "outcome_of
     (api_request example_library (PStr ''GET'') (PStr ''/api/v1/timelines/home'') (PDict [])
        (PDict []) True ((example_client ''throw'')\<lparr>ratelimit_remaining := 5\<rparr>) example_world
        [HttpResponse empty_page_response])
   = Some (Inr (PList []), \<lparr>clock = 1001, sleeps = [], sent = [home_request ''throw'']\<rparr>, [])"
    using B m(1) b4 by (simp add: outcome_of_def)
  show ?thesis using m s(1) o(1) a3 a1 b4 b2 by simp
qed

text \<open>
  Claim C2 as stated fails: with the method "throw" and a tracked remaining count of 0,
  a call whose response is a success returns the payload and raises nothing.
\<close>

theorem throw_remaining_zero_counterexample:
  "ratelimit_method (example_client ''throw'') = ''throw'' \<and>
   ratelimit_remaining (example_client ''throw'') = 0 \<and>
   api_request example_library (PStr ''GET'') (PStr ''/api/v1/timelines/home'') (PDict [])
     (PDict []) True (example_client ''throw'') example_world
     [HttpResponse empty_page_response]
   = Some (Inr (PList []), example_client ''throw'',
           \<lparr>clock = 1001, sleeps = [], sent = [home_request ''throw'']\<rparr>, [])"
  by (simp add: api_request_def pace_wait_def attempt_def update_ratelimit_def
      response_ok_def handle_success_def example_client_def example_world_def Let_def
      empty_page_response_def home_request_def note_request_def wait_response_def)

text \<open>
  Claim C3, amended. A response with status 429, whose rate limiting headers are read
  without exception and whose body gives an error message, ends the round of the
  request loop as follows. With the method "throw", or in a call without rate limiting,
  \<^verbatim>\<open>MastodonRatelimitError\<close> is raised at once. With "wait" or "pace" and rate limiting,
  when the tracked reset time lies after the present, the call sleeps for the time to
  the reset, at most 300 seconds, and the loop goes on with the same request (and the
  next response); when it does not, the call raises \<^verbatim>\<open>MastodonAPIError\<close> without
  sleeping and without another request.
\<close>

theorem ratelimit_429:
  assumes "status_code r = 429"
    and "update_ratelimit L d r self
           (wait_response r (note_request (build_request self m ep params files) w))
             = (None, self1)"
    and "error_message L r = Inr msg"
  shows "request_loop L m ep params files d (HttpResponse r # script) self w =
     (let w2 = wait_response r (note_request (build_request self m ep params files) w);
          to_next = ratelimit_reset self1 - clock w2
      in if ratelimit_method self = ''throw'' \<or> \<not> d
           then Some (Inl MastodonRatelimitError, self1, w2, script)
         else if ratelimit_method self \<in> {''wait'', ''pace''} \<and> to_next > 0
           then request_loop L m ep params files d script self1
                  (time_sleep (min to_next 300) w2)
         else Some (Inl MastodonAPIError, self1, w2, script))
     \<and> build_request self1 m ep params files = build_request self m ep params files"
proof -
  have k: "ratelimit_method self1 = ratelimit_method self"
    "api_base_url self1 = api_base_url self" "access_token self1 = access_token self"
    using update_ratelimit_keeps [OF assms(2)] by simp_all
  have nok: "\<not> response_ok r" using assms(1) by (simp add: response_ok_def)
  have a: "attempt L m ep params files d (HttpResponse r) self w =
     handle_error L d r self1
       (wait_response r (note_request (build_request self m ep params files) w))"
    using attempt_response [OF assms(2)] nok by simp
  have b: "build_request self1 m ep params files = build_request self m ep params files"
    using k(2,3) by (simp add: build_request_def)
  show ?thesis
    unfolding request_loop.simps a handle_error_429 [OF assms(1,3)] Let_def
    using k(1) b by simp
qed

lemma second_round:
  "request_loop example_library ''GET'' ''/api/v1/timelines/home'' (PDict []) (PDict []) True
     [HttpResponse empty_page_response]
     ((example_client ''wait'')\<lparr>ratelimit_limit := 300, ratelimit_reset := 1120\<rparr>)
     \<lparr>clock = 1120, sleeps = [119], sent = [home_request ''wait'']\<rparr>
   = Some (Inr (PList []),
       (example_client ''wait'')\<lparr>ratelimit_limit := 300, ratelimit_reset := 1120\<rparr>,
       \<lparr>clock = 1121, sleeps = [119], sent = [home_request ''wait'', home_request ''wait'']\<rparr>,
       [])"
  by (simp add: attempt_def update_ratelimit_def empty_page_response_def response_ok_def
      handle_success_def build_request_def Let_def note_request_def wait_response_def
      home_request_def example_client_def)

theorem ratelimit_429_witness:
  "status_code limited_response = 429 \<and>
   request_loop example_library ''GET'' ''/api/v1/timelines/home'' (PDict []) (PDict []) True
     [HttpResponse limited_response, HttpResponse empty_page_response]
     (example_client ''wait'') example_world
   = Some (Inr (PList []),
       (example_client ''wait'')\<lparr>ratelimit_limit := 300, ratelimit_reset := 1120\<rparr>,
       \<lparr>clock = 1121, sleeps = [119], sent = [home_request ''wait'', home_request ''wait'']\<rparr>,
       [])"
proof -
  have s: "status_code limited_response = 429" by (simp add: limited_response_def)
  have w: "wait_response limited_response (note_request
       (build_request (example_client ''wait'') ''GET'' ''/api/v1/timelines/home''
          (PDict []) (PDict [])) example_world)
     = \<lparr>clock = 1001, sleeps = [], sent = [home_request ''wait'']\<rparr>"
    by (simp add: wait_response_def note_request_def example_world_def home_request_def
        limited_response_def)
  have m: "ratelimit_method (example_client ''wait'') = ''wait''"
    by (simp add: example_client_def)
  have t: "time_sleep 119 \<lparr>clock = 1001, sleeps = [], sent = [home_request ''wait'']\<rparr>
      = \<lparr>clock = 1120, sleeps = [119], sent = [home_request ''wait'']\<rparr>"
    by (simp add: time_sleep_def)
  show ?thesis
    using s limited_update limited_message
      ratelimit_429 [of limited_response example_library True "example_client ''wait''"
        "''GET''" "''/api/v1/timelines/home''" "PDict []" "PDict []" example_world
        "(example_client ''wait'')\<lparr>ratelimit_limit := 300, ratelimit_reset := 1120\<rparr>"
        "PStr ''Too many requests''" "[HttpResponse empty_page_response]"]
    by (simp add: w m t second_round Let_def del: request_loop.simps)
qed

text \<open>
  Claim C3 as stated fails: with the method "wait" and a tracked reset time that is
  not in the future, a response 429 is neither waited for nor retried; the call raises
  \<^verbatim>\<open>MastodonAPIError\<close> after one request, without sleeping, although the next response
  would have been a success.
\<close>

theorem wait_past_reset_counterexample:
  "ratelimit_method (example_client ''wait'') = ''wait'' \<and>
   status_code bare_429_response = 429 \<and>
   api_request example_library (PStr ''GET'') (PStr ''/api/v1/timelines/home'') (PDict [])
     (PDict []) True (example_client ''wait'') example_world
     [HttpResponse bare_429_response, HttpResponse empty_page_response]
   = Some (Inl MastodonAPIError, example_client ''wait'',
           \<lparr>clock = 1001, sleeps = [], sent = [home_request ''wait'']\<rparr>,
           [HttpResponse empty_page_response])"
  by (simp add: api_request_def pace_wait_def attempt_def update_ratelimit_def
      response_ok_def handle_error_def error_message_def error_for_status_def
      example_client_def example_world_def Let_def bare_429_response_def
      home_request_def note_request_def wait_response_def)

subsection \<open>Pagination\<close>

text \<open>
  Claim C5, at the page that ends a pagination. The empty list is a page with no
  cursor attached, and \<^verbatim>\<open>fetch_next\<close> and \<^verbatim>\<open>fetch_previous\<close> do not return \<^verbatim>\<open>None\<close> on
  it: the test for a non-empty list sends it to the branch for a bare cursor, where
  \<^verbatim>\<open>params['_pagination_method']\<close> on a list raises \<^verbatim>\<open>TypeError\<close>.
\<close>

theorem fetch_empty_page_raises:
  "fetch_next L (PList []) self w script = Some (Inl TypeError, self, w, script) \<and>
   fetch_previous L (PList []) self w script = Some (Inl TypeError, self, w, script)"
  by (simp add: fetch_next_def fetch_previous_def cursor_request_def)

subsection \<open>Streaming\<close>

lemma getitem_contains: "py_getitem v k = Inr x \<Longrightarrow> py_contains k v = Inr True"
  by (cases v) (auto split: option.splits dest: map_of_SomeD intro: rev_image_eqI)

lemma last_host:
  "netloc \<noteq> [] \<Longrightarrow> CHR ''/'' \<notin> set netloc \<Longrightarrow> last (p @ netloc) \<noteq> CHR ''/''"
  by (metis last_appendR last_in_set)

lemma stream_base_url_redirect:
  assumes "py_getitem inst ''urls'' = Inr urls"
    and "py_getitem urls ''streaming_api'' = Inr streaming_api"
    and "streaming_api \<noteq> PStr (api_base_url self)"
    and "urlparse L streaming_api = Inr (scheme, netloc)"
    and "netloc \<noteq> []" and "CHR ''/'' \<notin> set netloc"
  shows "stream_base_url L self inst =
     (if scheme = ''wss'' then Inr (''https://'' @ netloc)
      else if scheme = ''ws'' then Inr (''http://'' @ netloc)
      else Inl MastodonAPIError)"
proof -
  have c: "py_contains ''streaming_api'' urls = Inr True"
    using assms(2) by (rule getitem_contains)
  have l: "last (''https://'' @ netloc) \<noteq> CHR ''/''" "last (''http://'' @ netloc) \<noteq> CHR ''/''"
    using assms(5,6) by (simp_all only: last_host not_False_eq_True)
  show ?thesis
    unfolding stream_base_url_def using assms(1-4) c l by simp
qed

lemma stream_connect:
  assumes "instance_get L self w script = Some (Inr inst, self1, w1, outcome # script2)"
    and "stream_base_url L self1 inst = Inr url"
    and "access_token self1 = Some token"
  shows "stream L endpoint handler params async self w script =
     (let w2 = note_request (stream_request url endpoint token params) w1 in
      case outcome of
        HttpException \<Rightarrow> Some (Inl (OtherException ''RequestException''), self1, w2, script2)
      | HttpNone \<Rightarrow> Some (Inl AttributeError, self1, w2, script2)
      | HttpResponse connection \<Rightarrow>
         if status_code connection \<noteq> 200
           then Some (Inl MastodonNetworkError, self1, w2, script2)
         else if async
           then Some (Inr (StreamHandle \<lparr>closed = False\<rparr>), self1, w2, script2)
         else (case handler of
                 Some e \<Rightarrow> Some (Inl e, self1, w2, script2)
               | None \<Rightarrow> Some (Inr StreamNone, self1, w2, script2)))"
  unfolding stream_def using assms by simp


lemma parse_110: "parse_version_string ''1.1.0'' = Inr (1, 1, 0)"
  by (simp add: int_parse_defs)

lemma decode_instance:
  "json_decode (json_hooks example_library)
     (PDict [(''uri'', PStr ''mastodon.social''), (''version'', PStr ''2.4.3''),
             (''urls'', PDict [(''streaming_api'', PStr ''wss://stream.example/'')])])
   = Inr instance_value"
  by (simp add: eval_hooks instance_value_def)

lemma instance_get_example:
  "instance_get example_library (example_client ''wait'') example_world
     (HttpResponse instance_response # rest)
   = Some (Inr instance_value, example_client ''wait'',
           \<lparr>clock = 1001, sleeps = [], sent = [instance_request]\<rparr>, rest)"
proof -
  have g: "api_version ''1.1.0'' ''1.4.2'' raise f (example_client ''wait'')
             = f (example_client ''wait'')" for raise and f :: "mastodon \<Rightarrow> 'r"
    by (simp add: api_version_def parse_110 example_client_def)
  have h: "handle_success example_library ''GET'' ''/api/v1/instance/'' (PDict [])
             instance_response = Inr instance_value"
    using decode_instance
    by (simp add: handle_success_def instance_response_def instance_value_def)
  have u: "update_ratelimit example_library True instance_response (example_client ''wait'') w
             = (None, example_client ''wait'')" for w
    by (simp add: update_ratelimit_def instance_response_def)
  have ok: "response_ok instance_response"
    by (simp add: response_ok_def instance_response_def)
  have w: "wait_response instance_response (note_request instance_request example_world)
            = \<lparr>clock = 1001, sleeps = [], sent = [instance_request]\<rparr>"
    by (simp add: wait_response_def note_request_def example_world_def instance_response_def)
  have p: "pace_wait True (example_client ''wait'') example_world = Inr example_world"
    by (simp add: pace_wait_def example_client_def)
  show ?thesis
    unfolding instance_get_def g api_request_def p
    by (simp add: attempt_def u ok h w instance_request_def [symmetric] Let_def)
qed

lemma urlparse_example:
  "urlparse example_library (PStr ''wss://stream.example/'') = Inr (''wss'', ''stream.example'')"
  by (simp add: example_library_def example_urlparse_def Let_def)




text \<open>
  Claim C8 as stated fails: a handler exception that is not an \<^verbatim>\<open>AttributeError\<close>
  propagates from the worker although the handle was closed before.
\<close>

theorem threadproc_closed_counterexample:
  "threadproc (close \<lparr>closed = False\<rparr>) (Some ValueError) = Inl ValueError"
  by (simp add: threadproc_def close_def)

text \<open>
  Claim C8, amended. In the worker of a background stream, an exception \<open>e\<close> raised by
  the handler while the handle \<open>h\<close> is not closed leaves the worker; one raised after
  the handle was closed is swallowed when it is an \<^verbatim>\<open>AttributeError\<close> and leaves the
  worker otherwise. In a synchronous stream, once the connection is open (status 200),
  an exception raised by the handler leaves the call, whatever it is.
\<close>

theorem handler_exceptions:
  "(\<not> closed h \<longrightarrow> threadproc h (Some e) = Inl e) \<and>
   (closed h \<longrightarrow> threadproc h (Some e) = (if e = AttributeError then Inr 0 else Inl e)) \<and>
   (instance_get L self w script
      = Some (Inr inst, self1, w1, HttpResponse connection # script2) \<and>
    stream_base_url L self1 inst = Inr url \<and> access_token self1 = Some token \<and>
    status_code connection = 200 \<longrightarrow>
      stream L endpoint (Some e) params False self w script
        = Some (Inl e, self1, note_request (stream_request url endpoint token params) w1,
                script2))"
proof -
  have "stream L endpoint (Some e) params False self w script
        = Some (Inl e, self1, note_request (stream_request url endpoint token params) w1,
                script2)"
    if "instance_get L self w script
          = Some (Inr inst, self1, w1, HttpResponse connection # script2)"
      "stream_base_url L self1 inst = Inr url" "access_token self1 = Some token"
      "status_code connection = 200"
    using stream_connect [OF that(1-3)] that(4) by (simp add: Let_def)
  then show ?thesis by (simp add: threadproc_def)
qed

lemma stream_base_url_example:
  "stream_base_url example_library (example_client ''wait'') instance_value
     = Inr ''https://stream.example''"
proof -
  have g1: "py_getitem instance_value ''urls''
              = Inr (PAttribDict [(''streaming_api'', PStr ''wss://stream.example/'')])"
    by (simp add: instance_value_def)
  have g2: "py_getitem (PAttribDict [(''streaming_api'', PStr ''wss://stream.example/'')])
              ''streaming_api'' = Inr (PStr ''wss://stream.example/'')"
    by simp
  have d: "PStr ''wss://stream.example/'' \<noteq> PStr (api_base_url (example_client ''wait''))"
    by (simp add: example_client_def)
  have n: "''stream.example'' \<noteq> []" "CHR ''/'' \<notin> set ''stream.example''"
    by simp_all
  show ?thesis
    using stream_base_url_redirect [OF g1 g2 d urlparse_example n] by simp
qed

theorem handler_exceptions_witness:
  "\<not> closed \<lparr>closed = False\<rparr> \<and>
   threadproc \<lparr>closed = False\<rparr> (Some AttributeError) = Inl AttributeError \<and>
   closed (close \<lparr>closed = False\<rparr>) \<and>
   threadproc (close \<lparr>closed = False\<rparr>) (Some AttributeError) = Inr 0 \<and>
   threadproc (close \<lparr>closed = False\<rparr>) (Some KeyError) = Inl KeyError \<and>
   status_code connection_response = 200 \<and>
   stream example_library ''/api/v1/streaming/public'' (Some AttributeError) (PDict []) False
     (example_client ''wait'') example_world
     [HttpResponse instance_response, HttpResponse connection_response]
   = Some (Inl AttributeError, example_client ''wait'',
           \<lparr>clock = 1001, sleeps = [],
              sent = [instance_request,
                      stream_request ''https://stream.example'' ''/api/v1/streaming/public''
                        ''token'' (PDict [])]\<rparr>, [])"
proof -
  have t: "access_token (example_client ''wait'') = Some ''token''"
    by (simp add: example_client_def)
  have c: "status_code connection_response = 200"
    by (simp add: connection_response_def)
  show ?thesis
    using c t stream_base_url_example
      instance_get_example [of "[HttpResponse connection_response]"]
      handler_exceptions [of "\<lparr>closed = False\<rparr>" AttributeError example_library
        "example_client ''wait''" example_world
        "[HttpResponse instance_response, HttpResponse connection_response]" instance_value
        "example_client ''wait''" "\<lparr>clock = 1001, sleeps = [], sent = [instance_request]\<rparr>"
        connection_response "[]" "''https://stream.example''" "''token''"
        "''/api/v1/streaming/public''" "PDict []"]
      handler_exceptions [of "close \<lparr>closed = False\<rparr>" AttributeError example_library
        "example_client ''wait''" example_world "[]" PNone "example_client ''wait''"
        example_world connection_response "[]" "[]" "[]" "[]" PNone]
      handler_exceptions [of "close \<lparr>closed = False\<rparr>" KeyError example_library
        "example_client ''wait''" example_world "[]" PNone "example_client ''wait''"
        example_world connection_response "[]" "[]" "[]" "[]" PNone]
    by (simp add: close_def note_request_def)
qed

subsection \<open>Attribute access\<close>




subsection \<open>Following a cursor\<close>

lemma sent_steps [simp]:
  "sent (note_request req w) = sent w @ [req]" "sent (wait_response r w) = sent w"
  "sent (time_sleep t w) = sent w"
  by (simp_all add: note_request_def wait_response_def time_sleep_def)

lemma handle_error_state:
  "handle_error L d r s w = Again s1 w1 \<Longrightarrow> s1 = s \<and> sent w1 = sent w"
  "handle_error L d r s w = Done res s1 w1 \<Longrightarrow> s1 = s \<and> sent w1 = sent w"
  by (auto simp: handle_error_def Let_def split: sum.splits if_splits)

lemma attempt_sent:
  assumes "attempt L m ep params files d outcome self w = Again s1 w1
           \<or> attempt L m ep params files d outcome self w = Done res s1 w1"
  shows "sent w1 = sent w @ [build_request self m ep params files] \<and>
         api_base_url s1 = api_base_url self \<and> access_token s1 = access_token self"
proof (cases outcome)
  case HttpException
  then show ?thesis using assms by (auto simp: attempt_def)
next
  case HttpNone
  then show ?thesis using assms by (auto simp: attempt_def)
next
  case (HttpResponse r)
  let ?w2 = "wait_response r (note_request (build_request self m ep params files) w)"
  obtain eo s2 where u: "update_ratelimit L d r self ?w2 = (eo, s2)"
    by (cases "update_ratelimit L d r self ?w2")
  note k = update_ratelimit_keeps [OF u]
  show ?thesis
  proof (cases eo)
    case (Some e)
    then show ?thesis using assms HttpResponse u k by (auto simp: attempt_def Let_def)
  next
    case None
    show ?thesis
    proof (cases "response_ok r")
      case True
      then show ?thesis
        using assms HttpResponse u k None by (auto simp: attempt_def Let_def)
    next
      case False
      then have a: "attempt L m ep params files d outcome self w = handle_error L d r s2 ?w2"
        using HttpResponse u None by (simp add: attempt_def Let_def)
      show ?thesis
        using assms k handle_error_state(1) [of L d r s2 ?w2 s1 w1]
          handle_error_state(2) [of L d r s2 ?w2 res s1 w1]
        unfolding a by auto
    qed
  qed
qed

lemma request_loop_sent:
  "request_loop L m ep params files d script self w = Some (res, self', w', script') \<Longrightarrow>
     length script' < length script \<and>
     sent w' = sent w @ replicate (length script - length script')
                          (build_request self m ep params files)"
proof (induction script arbitrary: self w)
  case Nil
  then show ?case by simp
next
  case (Cons outcome script)
  show ?case
  proof (cases "attempt L m ep params files d outcome self w")
    case (Again s1 w1)
    then have r: "request_loop L m ep params files d script s1 w1 = Some (res, self', w', script')"
      using Cons.prems by simp
    from attempt_sent [of L m ep params files d outcome self w s1 w1] Again
    have k: "sent w1 = sent w @ [build_request self m ep params files]"
      "api_base_url s1 = api_base_url self" "access_token s1 = access_token self" by simp_all
    have b: "build_request s1 m ep params files = build_request self m ep params files"
      using k(2,3) by (simp add: build_request_def)
    from Cons.IH [OF r] have ih: "length script' < length script"
      "sent w' = sent w1 @ replicate (length script - length script')
                            (build_request s1 m ep params files)" by simp_all
    have "Suc (length script) - length script' = Suc (length script - length script')"
      using ih(1) by simp
    then show ?thesis
      using ih k(1) b by (simp add: replicate_app_Cons_same)
  next
    case (Done res1 s1 w1)
    then have e: "res1 = res" "s1 = self'" "w1 = w'" "script' = script"
      using Cons.prems by simp_all
    from attempt_sent [of L m ep params files d outcome self w s1 w1 res1] Done
    have "sent w1 = sent w @ [build_request self m ep params files]" by simp
    then show ?thesis using e by simp
  qed
qed

lemma api_request_sent:
  assumes "api_request L (PStr m) (PStr ep) params files d self w script
             = Some (res, self', w', script')"
  shows "length script' \<le> length script \<and>
         sent w' = sent w @ replicate (length script - length script')
                              (build_request self m ep params files)"
proof (cases "pace_wait d self w")
  case (Inl e)
  then show ?thesis using assms by (simp add: api_request_def)
next
  case (Inr w1)
  then have s: "sent w1 = sent w"
    by (auto simp: pace_wait_def Let_def split: if_splits)
  from Inr assms have "request_loop L m ep params files d script self w1
      = Some (res, self', w', script')" by (simp add: api_request_def)
  from request_loop_sent [OF this] show ?thesis using s by simp
qed





lemma request_loop_leq:
  "api_request L (PStr m) (PStr ep) params files d self w script
     = Some (res, self', w', script') \<Longrightarrow> length script' \<le> length script"
  using api_request_sent by blast


lemma setitem_getitem: "py_setitem v k x = Inr v' \<Longrightarrow> py_getitem v' k = Inr x"
  by (cases v) (auto simp: update_conv')










lemma set_last_item_last:
  assumes "set_last_item response key v = Inr response'"
  shows "response' \<noteq> [] \<and> py_getitem (last response') key = Inr v"
proof -
  from assms obtain x where x: "py_setitem (last response) key v = Inr x"
    "response' = butlast response @ [x]"
    by (auto simp: set_last_item_def split: if_splits sum.splits)
  show ?thesis using x setitem_getitem [OF x(1)] by simp
qed

lemma attach_next_cursor:
  assumes "attach_next method endpoint params url response = Inr response'"
    and "map_of url ''url'' = Some next_url"
    and "search_digits_after ''max_id='' next_url = Some digits"
  shows "response' \<noteq> [] \<and>
         (\<exists>cursor. make_cursor params method endpoint ''max_id'' ''since_id'' digits = Inr cursor
                  \<and> py_getitem (last response') ''_pagination_next'' = Inr cursor)"
proof (cases "make_cursor params method endpoint ''max_id'' ''since_id'' digits")
  case (Inl e)
  then show ?thesis using assms by (simp add: attach_next_def)
next
  case (Inr cursor)
  then have "set_last_item response ''_pagination_next'' cursor = Inr response'"
    using assms by (simp add: attach_next_def)
  from set_last_item_last [OF this] Inr show ?thesis by simp
qed




subsection \<open>JSON hooks\<close>





























end
